theory Spec2Isabelle
  imports Main "HOL-Library.Word" "HOL-Library.Char_ord" "HOL-Library.List_Lexorder"
begin

section \<open>The compiler-visible object walker of typed\_python\<close>

subsection \<open>C++ strings and exceptions\<close>

text \<open>
  A \<open>std::string\<close> is a list of bytes.  \<open>size_t\<close> is a 64-bit word, so that
  \<open>name.size() - 2\<close> wraps around for a name shorter than two bytes, as it does
  in the source.  \<open>std::string::substr(pos, n)\<close> throws \<open>std::out_of_range\<close>
  when \<open>pos > size()\<close> and otherwise returns at most \<open>n\<close> bytes from \<open>pos\<close> on.
  Undefined behaviour of the C++ (a null \<open>char*\<close> turned into a string, a cast to a
  struct the object does not have) is an outcome of its own.
\<close>

datatype cpp_error =
  out_of_range
  | runtime_error string
  | PythonExceptionSet
  | undefined_behaviour

type_synonym size_t = "64 word"

definition npos :: size_t where
  "npos = - 1"

definition str_size :: "string \<Rightarrow> size_t" where
  "str_size s = word_of_nat (length s)"

definition substr :: "string \<Rightarrow> size_t \<Rightarrow> size_t \<Rightarrow> cpp_error + string" where
  "substr s pos n =
     (if unat pos > length s then Inl out_of_range
      else Inr (take (unat n) (drop (unat pos) s)))"

definition bindE :: "cpp_error + 'a \<Rightarrow> ('a \<Rightarrow> cpp_error + 'b) \<Rightarrow> cpp_error + 'b" where
  "bindE m f = (case m of Inl e \<Rightarrow> Inl e | Inr x \<Rightarrow> f x)"

subsection \<open>Name classification\<close>

definition canonicalMagicMethods :: "string list" where
  "canonicalMagicMethods =
    [''__abs__'', ''__add__'', ''__and__'', ''__bool__'',
     ''__bytes__'', ''__call__'', ''__contains__'', ''__del__'',
     ''__delattr__'', ''__eq__'', ''__float__'', ''__floordiv__'',
     ''__format__'', ''__ge__'', ''__getitem__'', ''__gt__'',
     ''__hash__'', ''__iadd__'', ''__iand__'', ''__ieq__'',
     ''__ifloordiv__'', ''__ige__'', ''__igt__'', ''__ile__'',
     ''__ilshift__'', ''__ilt__'', ''__imatmul__'', ''__imod__'',
     ''__imul__'', ''__index__'', ''__ine__'', ''__init__'',
     ''__int__'', ''__invert__'', ''__ior__'', ''__ipow__'',
     ''__irshift__'', ''__isub__'', ''__itruediv__'', ''__ixor__'',
     ''__le__'', ''__len__'', ''__lshift__'', ''__lt__'',
     ''__matmul__'', ''__mod__'', ''__mul__'', ''__ne__'',
     ''__neg__'', ''__not__'', ''__or__'', ''__pos__'',
     ''__pow__'', ''__radd__'', ''__rand__'', ''__repr__'',
     ''__rfloordiv__'', ''__rlshift__'', ''__rmatmul__'', ''__rmod__'',
     ''__rmul__'', ''__ror__'', ''__round__'', ''__round__'',
     ''__rpow__'', ''__rrshift__'', ''__rshift__'', ''__rsub__'',
     ''__rtruediv__'', ''__rxor__'', ''__setattr__'', ''__setitem__'',
     ''__str__'', ''__sub__'', ''__truediv__'', ''__xor__'']"

text \<open>
  \<open>&&\<close> evaluates left to right and stops at the first false operand, so the second
  \<open>substr\<close> runs only when the first two bytes are \<open>__\<close>.
\<close>

definition isSpecialIgnorableName :: "string \<Rightarrow> cpp_error + bool" where
  "isSpecialIgnorableName name =
     bindE (substr name 0 2) (\<lambda>pre.
       if pre \<noteq> ''__'' then Inr False
       else bindE (substr name (str_size name - 2) npos) (\<lambda>suf.
         if suf \<noteq> ''__'' then Inr False
         else Inr (name \<notin> set canonicalMagicMethods)))"

text \<open>
  \<open>std::string::find\<close> returns the position of the first occurrence, or \<open>npos\<close>.
  The source stores it in an \<open>int\<close> (the low 32 bits), then compares that \<open>int\<close>
  with \<open>npos\<close> and passes it to \<open>substr\<close>, both after sign extension to \<open>size_t\<close>.
\<close>

definition str_find :: "string \<Rightarrow> char \<Rightarrow> size_t" where
  "str_find s c =
     (if c \<in> set s then word_of_nat (length (takeWhile (\<lambda>x. x \<noteq> c) s)) else npos)"

definition canonicalPythonModuleNames :: "string list" where
  "canonicalPythonModuleNames =
    [''abc'', ''aifc'', ''antigravity'', ''argparse'', ''ast'', ''asynchat'', ''asyncio'',
     ''asyncore'', ''base64'', ''bdb'', ''binhex'', ''bisect'', ''_bootlocale'', ''bz2'',
     ''calendar'', ''cgi'', ''cgitb'', ''chunk'', ''cmd'', ''codecs'', ''codeop'',
     ''code'', ''collections'', ''_collections_abc'', ''colorsys'', ''_compat_pickle'',
     ''compileall'', ''_compression'', ''concurrent'', ''configparser'', ''contextlib'',
     ''contextvars'', ''copy'', ''copyreg'', ''cProfile'', ''crypt'', ''csv'', ''ctypes'',
     ''curses'', ''dataclasses'', ''datetime'', ''dbm'', ''decimal'', ''difflib'', ''dis'',
     ''distutils'', ''doctest'', ''dummy_threading'', ''_dummy_thread'', ''email'',
     ''encodings'', ''ensurepip'', ''enum'', ''filecmp'', ''fileinput'', ''fnmatch'',
     ''formatter'', ''fractions'', ''ftplib'', ''functools'', ''__future__'',
     ''genericpath'', ''getopt'', ''getpass'', ''gettext'', ''glob'', ''gzip'',
     ''hashlib'', ''heapq'', ''hmac'', ''html'', ''http'', ''idlelib'', ''imaplib'',
     ''imghdr'', ''importlib'', ''imp'', ''inspect'', ''io'', ''ipaddress'', ''json'',
     ''keyword'', ''lib2to3'', ''linecache'', ''locale'', ''logging'', ''lzma'',
     ''mailbox'', ''mailcap'', ''marshal'', ''_markupbase'', ''mimetypes'',
     ''modulefinder'', ''msilib'', ''multiprocessing'', ''netrc'', ''nntplib'', ''ntpath'',
     ''nturl2path'', ''numbers'', ''opcode'', ''operator'', ''optparse'', ''os'',
     ''_osx_support'', ''pathlib'', ''pdb'', ''pickle'', ''pickletools'', ''pipes'',
     ''pkgutil'', ''platform'', ''plistlib'', ''poplib'', ''posixpath'', ''pprint'',
     ''profile'', ''pstats'', ''pty'', ''_py_abc'', ''pyclbr'', ''py_compile'',
     ''_pydecimal'', ''pydoc_data'', ''pydoc'', ''_pyio'', ''queue'', ''quopri'',
     ''random'', ''reprlib'', ''re'', ''rlcompleter'', ''runpy'', ''sched'', ''secrets'',
     ''selectors'', ''shelve'', ''shlex'', ''shutil'', ''signal'', ''_sitebuiltins'',
     ''site-packages'', ''site'', ''smtpd'', ''smtplib'', ''sndhdr'', ''socket'',
     ''socketserver'', ''sqlite3'', ''sre_compile'', ''sre_constants'', ''sre_parse'',
     ''ssl'', ''statistics'', ''stat'', ''stringprep'', ''string'', ''_strptime'',
     ''struct'', ''subprocess'', ''sunau'', ''symbol'', ''symtable'', ''sysconfig'',
     ''tabnanny'', ''tarfile'', ''telnetlib'', ''tempfile'', ''test'', ''textwrap'',
     ''this'', ''_threading_local'', ''threading'', ''timeit'', ''tkinter'', ''tokenize'',
     ''token'', ''traceback'', ''tracemalloc'', ''trace'', ''tty'', ''turtledemo'',
     ''turtle'', ''types'', ''typing'', ''unittest'', ''urllib'', ''uuid'', ''uu'',
     ''venv'', ''warnings'', ''wave'', ''weakref'', ''_weakrefset'', ''webbrowser'',
     ''wsgiref'', ''xdrlib'', ''xml'', ''xmlrpc'', ''zipapp'', ''zipfile'', ''zipimport'',
     ''pytz'', ''psutil'', ''numpy'', ''pandas'', ''scipy'', ''pytest'', ''_pytest'',
     ''typed_python'', ''object_database'', ''llvmlite'', ''requests'', ''redis'',
     ''websockets'', ''boto3'', ''py'', ''xdist'', ''pytest_jsonreport'',
     ''pytest_metadata'', ''flask'', ''flaky'', ''coverage'', ''pyasn1'', ''cryptography'',
     ''paramiko'', ''six'', ''torch'']"

definition isCanonicalName :: "string \<Rightarrow> cpp_error + bool" where
  "isCanonicalName name =
     (let posOfDot = (ucast (str_find name (CHR ''.'')) :: 32 word) in
      bindE (if (scast posOfDot :: size_t) \<noteq> npos
             then substr name 0 (scast posOfDot)
             else Inr name)
        (\<lambda>moduleNameRoot. Inr (moduleNameRoot \<in> set canonicalPythonModuleNames)))"

subsection \<open>The live object model\<close>

text \<open>
  A \<open>PyObject*\<close> is an address.  The statically allocated objects of the interpreter
  that the walker compares pointers with are constructors of their own, so that they are
  pairwise different; \<open>PyBaseObject_Type\<close> is what \<open>PyDict_Type.tp_base\<close> points to.
  Every other object is \<open>Obj n\<close>.  A \<open>Type*\<close> of the type graph is an address too.
  \<open>TypeOrPyobj\<close> holds one or the other and compares by identity.
\<close>

datatype PyPtr =
  Py_None | Py_True | Py_False
  | PyBaseObject_Type | PyType_Type | PyDict_Type | PyList_Type | PySet_Type
  | PyLong_Type | PyUnicode_Type | PyFloat_Type | PyBytes_Type | PyBool_Type
  | PyProperty_Type | PyClassMethodDescr_Type | PyGetSetDescr_Type | PyMemberDescr_Type
  | PyMethodDescr_Type | PyWrapperDescr_Type | PyDictProxy_Type | PyMethodWrapper_Type
  | PyCFunction_Type | PyFunction_Type | PyStaticMethod_Type | PyClassMethod_Type
  | Obj nat

datatype Type_ptr = TypePtr nat

datatype TypeOrPyobj = OfType Type_ptr | OfPyobj PyPtr

text \<open>
  The fields of a code object and of a function object that exist in the C structs the
  walker reads, including the two it leaves out on purpose (\<open>co_flags\<close> and
  \<open>co_filename\<close>).  \<open>co_code\<close> holds the bytes of the bytes object the field points
  to.  \<open>func_annotations\<close>, \<open>func_defaults\<close> and \<open>func_kwdefaults\<close> are what
  \<open>PyFunction_GetAnnotations\<close>, \<open>PyFunction_GetDefaults\<close> and
  \<open>PyFunction_GetKwDefaults\<close> return; a null pointer is \<open>None\<close>.
\<close>

record PyCodeObject =
  co_argcount :: int
  co_kwonlyargcount :: int
  co_nlocals :: int
  co_stacksize :: int
  co_flags :: int
  co_firstlineno :: int
  co_code :: string
  co_consts :: "PyPtr option"
  co_names :: "PyPtr option"
  co_varnames :: "PyPtr option"
  co_freevars :: "PyPtr option"
  co_cellvars :: "PyPtr option"
  co_filename :: PyPtr
  co_name :: PyPtr
  co_linetable :: PyPtr
  co_lnotab :: PyPtr

record PyFunctionObject =
  func_closure :: "PyPtr option"
  func_name :: PyPtr
  func_code :: PyPtr
  func_globals :: "PyPtr option"
  func_annotations :: "PyPtr option"
  func_defaults :: "PyPtr option"
  func_kwdefaults :: "PyPtr option"

text \<open>
  The layout of an object, which is what the \<open>Py*_Check\<close> macros test.  A dictionary
  keeps its entries in insertion order, the order in which iteration yields its keys.
\<close>

datatype PyBody =
  LongBody
  | FloatBody
  | BytesBody string
  | UnicodeBody string
  | ModuleBody
  | TypeBody "PyPtr option" "PyPtr option"
  | CodeBody PyCodeObject
  | FunctionBody PyFunctionObject
  | TupleBody "PyPtr list"
  | DictBody "(PyPtr \<times> PyPtr) list"
  | SetBody "PyPtr list"
  | ListBody "PyPtr list"
  | CellBody "PyPtr option"
  | DescrBody PyPtr PyPtr
  | OtherBody

record PyObject =
  ob_type :: PyPtr
  body :: PyBody
  attrs :: "string \<Rightarrow> PyPtr option"

text \<open>
  One structural record entry (\<open>VisitRecord\<close>): the source keeps a kind and five
  fields of which \<open>operator==\<close> compares those of the kind only, and every constructor
  leaves the others at their defaults.
\<close>

datatype 'h VisitRecord =
  HashRecord 'h
  | StringRecord string
  | TopoRecord TypeOrPyobj
  | NameValuePairRecord string TypeOrPyobj
  | ErrorRecord string

text \<open>
  Modelled from the spec: \<open>ShaHash.hpp\<close>, \<open>util.hpp\<close>, \<open>TypeOrPyobj\<close>, the
  type graph (\<open>Type::visitCompilerVisibleInternals\<close>,
  \<open>PyInstance::extractTypeFrom\<close>) and
  \<open>Function::Overload::visitCompilerVisibleGlobals\<close> are not among the sources, so
  they are parameters of the model, fields of the snapshot \<open>world\<close> of everything
  outside the walker that it reads.  The digest type is the parameter \<open>'h\<close>;
  \<open>ShaHash\<close> is its constructor from an integer, \<open>SHA1\<close> the digest of a byte
  string, \<open>digestAsHexString\<close> its rendering; \<open>topoName\<close> is
  \<open>TypeOrPyobj::name\<close>.  The two enumerators are given by the sequence of calls they
  make on the visitor (the spec: they yield a decomposition through the same five
  channels, respectively the name and value pairs the function's instructions reference
  as globals).  \<open>sys_modules\<close> is the module registry, looked up by the text of the
  key; \<open>tp_name\<close> is the name a type object carries; the other fields are the objects
  the walker looks up once and keeps in static variables.
\<close>

record 'h world =
  heap :: "PyPtr \<Rightarrow> PyObject"
  sys_modules :: "string \<Rightarrow> PyPtr option"
  builtinsModule :: PyPtr
  builtinsModuleDict :: PyPtr
  environType :: PyPtr
  weakSetType :: PyPtr
  weakKeyDictType :: PyPtr
  weakValueDictType :: PyPtr
  PY_MINOR_VERSION :: nat
  tp_name :: "PyPtr \<Rightarrow> string"
  extractTypeFrom :: "PyPtr \<Rightarrow> Type_ptr option"
  visitCompilerVisibleInternals :: "Type_ptr \<Rightarrow> 'h VisitRecord list"
  visitCompilerVisibleGlobals :: "PyPtr \<Rightarrow> PyPtr \<Rightarrow> (string \<times> PyPtr) list"
  ShaHash :: "int \<Rightarrow> 'h"
  SHA1 :: "string \<Rightarrow> 'h"
  digestAsHexString :: "'h \<Rightarrow> string"
  topoName :: "TypeOrPyobj \<Rightarrow> string"

subsection \<open>The interpreter's interface\<close>

definition PyLong_Check :: "'h world \<Rightarrow> PyPtr \<Rightarrow> bool" where
  "PyLong_Check w p = (case body (heap w p) of LongBody \<Rightarrow> True | _ \<Rightarrow> False)"

definition PyFloat_Check :: "'h world \<Rightarrow> PyPtr \<Rightarrow> bool" where
  "PyFloat_Check w p = (case body (heap w p) of FloatBody \<Rightarrow> True | _ \<Rightarrow> False)"

definition PyBytes_Check :: "'h world \<Rightarrow> PyPtr \<Rightarrow> bool" where
  "PyBytes_Check w p = (case body (heap w p) of BytesBody _ \<Rightarrow> True | _ \<Rightarrow> False)"

definition PyUnicode_Check :: "'h world \<Rightarrow> PyPtr \<Rightarrow> bool" where
  "PyUnicode_Check w p = (case body (heap w p) of UnicodeBody _ \<Rightarrow> True | _ \<Rightarrow> False)"

definition PyModule_Check :: "'h world \<Rightarrow> PyPtr \<Rightarrow> bool" where
  "PyModule_Check w p = (case body (heap w p) of ModuleBody \<Rightarrow> True | _ \<Rightarrow> False)"

definition PyType_Check :: "'h world \<Rightarrow> PyPtr \<Rightarrow> bool" where
  "PyType_Check w p = (case body (heap w p) of TypeBody _ _ \<Rightarrow> True | _ \<Rightarrow> False)"

definition PyCode_Check :: "'h world \<Rightarrow> PyPtr \<Rightarrow> bool" where
  "PyCode_Check w p = (case body (heap w p) of CodeBody _ \<Rightarrow> True | _ \<Rightarrow> False)"

definition PyFunction_Check :: "'h world \<Rightarrow> PyPtr \<Rightarrow> bool" where
  "PyFunction_Check w p = (case body (heap w p) of FunctionBody _ \<Rightarrow> True | _ \<Rightarrow> False)"

definition PyTuple_Check :: "'h world \<Rightarrow> PyPtr \<Rightarrow> bool" where
  "PyTuple_Check w p = (case body (heap w p) of TupleBody _ \<Rightarrow> True | _ \<Rightarrow> False)"

definition PyDict_Check :: "'h world \<Rightarrow> PyPtr \<Rightarrow> bool" where
  "PyDict_Check w p = (case body (heap w p) of DictBody _ \<Rightarrow> True | _ \<Rightarrow> False)"

definition PySet_Check :: "'h world \<Rightarrow> PyPtr \<Rightarrow> bool" where
  "PySet_Check w p = (case body (heap w p) of SetBody _ \<Rightarrow> True | _ \<Rightarrow> False)"

definition PyList_Check :: "'h world \<Rightarrow> PyPtr \<Rightarrow> bool" where
  "PyList_Check w p = (case body (heap w p) of ListBody _ \<Rightarrow> True | _ \<Rightarrow> False)"

definition PyCell_Check :: "'h world \<Rightarrow> PyPtr \<Rightarrow> bool" where
  "PyCell_Check w p = (case body (heap w p) of CellBody _ \<Rightarrow> True | _ \<Rightarrow> False)"

text \<open>\<open>PyUnicode_AsUTF8\<close>: the bytes of a text object, a null pointer for any other.\<close>

definition PyUnicode_AsUTF8 :: "'h world \<Rightarrow> PyPtr \<Rightarrow> string option" where
  "PyUnicode_AsUTF8 w p = (case body (heap w p) of UnicodeBody s \<Rightarrow> Some s | _ \<Rightarrow> None)"

text \<open>
  \<open>PyObject_GetAttrString\<close> and \<open>PyObject_GetAttr\<close> (whose name is an object):
  the attribute, or a null pointer, with an exception set in the interpreter.
\<close>

definition PyObject_GetAttrString :: "'h world \<Rightarrow> PyPtr \<Rightarrow> string \<Rightarrow> PyPtr option" where
  "PyObject_GetAttrString w p name = attrs (heap w p) name"

definition PyObject_GetAttr :: "'h world \<Rightarrow> PyPtr \<Rightarrow> PyPtr \<Rightarrow> PyPtr option" where
  "PyObject_GetAttr w p name =
     (case PyUnicode_AsUTF8 w name of None \<Rightarrow> None | Some n \<Rightarrow> attrs (heap w p) n)"

definition PyObject_HasAttrString :: "'h world \<Rightarrow> PyPtr \<Rightarrow> string \<Rightarrow> bool" where
  "PyObject_HasAttrString w p name = (PyObject_GetAttrString w p name \<noteq> None)"

text \<open>\<open>PyObject_GetItem(sysModuleModules, name)\<close>: the registry entry of that name.\<close>

definition sysModuleModules_GetItem :: "'h world \<Rightarrow> PyPtr \<Rightarrow> PyPtr option" where
  "sysModuleModules_GetItem w name =
     (case PyUnicode_AsUTF8 w name of None \<Rightarrow> None | Some n \<Rightarrow> sys_modules w n)"

text \<open>
  \<open>PyTuple_Size\<close> is \<open>-1\<close> for an object that is not a tuple.  \<open>tupleItems\<close> is
  what a loop \<open>for (k = 0; k < PyTuple_Size(t); k++)\<close> reads with
  \<open>PyTuple_GetItem(t, k)\<close>: the items in order, none when the size is \<open>-1\<close>.
\<close>

definition PyTuple_Size :: "'h world \<Rightarrow> PyPtr \<Rightarrow> int" where
  "PyTuple_Size w t = (case body (heap w t) of TupleBody items \<Rightarrow> int (length items) | _ \<Rightarrow> - 1)"

definition tupleItems :: "'h world \<Rightarrow> PyPtr \<Rightarrow> PyPtr list" where
  "tupleItems w t = (case body (heap w t) of TupleBody items \<Rightarrow> items | _ \<Rightarrow> [])"

text \<open>\<open>PyDict_GetItem(d, key)\<close> for a key object of the dictionary: its value.\<close>

definition PyDict_GetItem :: "'h world \<Rightarrow> PyPtr \<Rightarrow> PyPtr \<Rightarrow> PyPtr option" where
  "PyDict_GetItem w d key = (case body (heap w d) of DictBody kvs \<Rightarrow> map_of kvs key | _ \<Rightarrow> None)"

definition PyCell_Get :: "'h world \<Rightarrow> PyPtr \<Rightarrow> PyPtr option" where
  "PyCell_Get w p = (case body (heap w p) of CellBody c \<Rightarrow> c | _ \<Rightarrow> None)"

text \<open>
  Modelled from the spec: \<open>iterate\<close> of \<open>util.hpp\<close> is not among the sources.  It
  calls its function on every element the Python iterator of the object yields: the keys
  of a dictionary, the items of a tuple, list or set.  An object that has no iterator
  makes it throw.
\<close>

definition iterate :: "'h world \<Rightarrow> PyPtr \<Rightarrow> cpp_error + PyPtr list" where
  "iterate w p =
     (case body (heap w p) of
        DictBody kvs \<Rightarrow> Inr (map fst kvs)
      | TupleBody items \<Rightarrow> Inr items
      | ListBody items \<Rightarrow> Inr items
      | SetBody items \<Rightarrow> Inr items
      | _ \<Rightarrow> Inl PythonExceptionSet)"

subsection \<open>The canonical-identity resolver\<close>

text \<open>
  \<open>isPyObjectGloballyIdentifiable\<close> returns its answer together with the state of the
  interpreter's error indicator when it returns, the indicator being \<open>err\<close> when it is
  called: a lookup that fails leaves an exception set, and \<open>PyErr_Clear\<close> (which a
  failed \<open>PyObject_HasAttrString\<close> calls itself) clears it.  The walker reads the
  answer only.
\<close>

definition PyErr_Occurred_after_failure :: "bool \<Rightarrow> bool" where
  "PyErr_Occurred_after_failure err = True"

definition PyErr_Clear :: "bool \<Rightarrow> bool" where
  "PyErr_Clear err = False"

definition isPyObjectGloballyIdentifiable :: "'h world \<Rightarrow> PyPtr \<Rightarrow> bool \<Rightarrow> bool \<times> bool" where
  "isPyObjectGloballyIdentifiable w h err =
     (if \<not> PyObject_HasAttrString w h ''__module__''
      then (False, PyErr_Clear (PyErr_Occurred_after_failure err))
      else if \<not> PyObject_HasAttrString w h ''__name__''
      then (False, PyErr_Clear (PyErr_Occurred_after_failure err))
      else
        (case PyObject_GetAttrString w h ''__module__'' of
           None \<Rightarrow> (False, PyErr_Clear (PyErr_Occurred_after_failure err))
         | Some moduleName \<Rightarrow>
             (case PyObject_GetAttrString w h ''__name__'' of
                None \<Rightarrow> (False, PyErr_Clear (PyErr_Occurred_after_failure err))
              | Some clsName \<Rightarrow>
                  if \<not> PyUnicode_Check w moduleName \<or> \<not> PyUnicode_Check w clsName
                  then (False, err)
                  else
                    (case sysModuleModules_GetItem w moduleName of
                       None \<Rightarrow> (False, PyErr_Clear (PyErr_Occurred_after_failure err))
                     | Some moduleObject \<Rightarrow>
                         (case PyObject_GetAttr w moduleObject clsName of
                            None \<Rightarrow> (False, PyErr_Clear (PyErr_Occurred_after_failure err))
                          | Some obj \<Rightarrow> if obj = h then (True, err) else (False, err))))))"

text \<open>
  \<open>std::string(PyUnicode_AsUTF8(PyObject_GetAttrString(h, ...)))\<close>: a null pointer at
  either step is undefined behaviour.
\<close>

definition attrAsString :: "'h world \<Rightarrow> PyPtr \<Rightarrow> string \<Rightarrow> cpp_error + string" where
  "attrAsString w h name =
     (case PyObject_GetAttrString w h name of
        None \<Rightarrow> Inl undefined_behaviour
      | Some a \<Rightarrow>
          (case PyUnicode_AsUTF8 w a of None \<Rightarrow> Inl undefined_behaviour | Some s \<Rightarrow> Inr s))"

definition isPyObjectGloballyIdentifiableAndStable :: "'h world \<Rightarrow> PyPtr \<Rightarrow> cpp_error + bool" where
  "isPyObjectGloballyIdentifiableAndStable w h =
     (if fst (isPyObjectGloballyIdentifiable w h False) then
        bindE (attrAsString w h ''__module__'') (\<lambda>moduleName.
        bindE (attrAsString w h ''__name__'') (\<lambda>clsName.
        bindE (isCanonicalName moduleName) (\<lambda>canonical.
          if canonical \<or> ob_type (heap w h) = PyCFunction_Type then Inr True
          else Inr False)))
      else Inr False)"

definition isSimpleConstant :: "'h world \<Rightarrow> PyPtr \<Rightarrow> bool" where
  "isSimpleConstant w h =
     (h = Py_None
      \<or> h = Py_True
      \<or> h = Py_False
      \<or> PyLong_Check w h
      \<or> PyBytes_Check w h
      \<or> PyUnicode_Check w h
      \<or> h = builtinsModule w
      \<or> h = builtinsModuleDict w
      \<or> h = PyBaseObject_Type
      \<or> h = PyType_Type
      \<or> h = PyDict_Type
      \<or> h = PyList_Type
      \<or> h = PySet_Type
      \<or> h = PyLong_Type
      \<or> h = PyUnicode_Type
      \<or> h = PyFloat_Type
      \<or> h = PyBytes_Type
      \<or> h = PyBool_Type
      \<or> h = ob_type (heap w Py_None)
      \<or> h = PyProperty_Type
      \<or> h = PyClassMethodDescr_Type
      \<or> h = PyGetSetDescr_Type
      \<or> h = PyMemberDescr_Type
      \<or> h = PyMethodDescr_Type
      \<or> h = PyWrapperDescr_Type
      \<or> h = PyDictProxy_Type
      \<or> h = PyMethodWrapper_Type
      \<or> h = PyCFunction_Type
      \<or> h = PyFunction_Type
      \<or> PyFloat_Check w h
      \<or> ob_type (heap w h) = PyProperty_Type
      \<or> ob_type (heap w h) = PyGetSetDescr_Type
      \<or> ob_type (heap w h) = PyMemberDescr_Type
      \<or> ob_type (heap w h) = PyWrapperDescr_Type
      \<or> ob_type (heap w h) = PyDictProxy_Type
      \<or> ob_type (heap w h) = PyMethodWrapper_Type)"

subsection \<open>The visitor\<close>

text \<open>
  The visitor (\<open>LambdaVisitor\<close>) is five callbacks that return nothing; what they do
  is a change of the visitor's own state \<open>'s\<close>.  \<open>run\<close> makes a sequence of calls in
  order.  \<open>emit\<close> makes the call that corresponds to one record entry.
\<close>

record ('h, 's) visitor_type =
  visitHash :: "'h \<Rightarrow> 's \<Rightarrow> 's"
  visitName :: "string \<Rightarrow> 's \<Rightarrow> 's"
  visitTopo :: "TypeOrPyobj \<Rightarrow> 's \<Rightarrow> 's"
  visitNamedTopo :: "string \<Rightarrow> TypeOrPyobj \<Rightarrow> 's \<Rightarrow> 's"
  visitErr :: "string \<Rightarrow> 's \<Rightarrow> 's"

definition run :: "('s \<Rightarrow> 's) list \<Rightarrow> 's \<Rightarrow> 's" where
  "run calls s = fold (\<lambda>call. call) calls s"

fun emit :: "('h, 's) visitor_type \<Rightarrow> 'h VisitRecord \<Rightarrow> 's \<Rightarrow> 's" where
  "emit visitor (HashRecord h) = visitHash visitor h"
| "emit visitor (StringRecord name) = visitName visitor name"
| "emit visitor (TopoRecord topo) = visitTopo visitor topo"
| "emit visitor (NameValuePairRecord name topo) = visitNamedTopo visitor name topo"
| "emit visitor (ErrorRecord err) = visitErr visitor err"

subsection \<open>Walking dictionaries and tuples\<close>

text \<open>
  \<open>std::map<std::string, PyObject*>\<close>: the entries in increasing order of their keys,
  one for each key; \<open>names[name] = o\<close> replaces the entry of a key that is there.
  Strings compare byte by byte, lexicographically.
\<close>

fun map_assign :: "string \<Rightarrow> 'v \<Rightarrow> (string \<times> 'v) list \<Rightarrow> (string \<times> 'v) list" where
  "map_assign k v [] = [(k, v)]"
| "map_assign k v ((k', v') # m) =
     (if k < k' then (k, v) # (k', v') # m
      else if k = k' then (k, v) # m
      else (k', v') # map_assign k v m)"

text \<open>
  The loop of \<open>visitDict\<close> over the keys, filling \<open>names\<close>.  Where the source
  passes an integer to \<open>visitHash\<close>, the argument is converted by the constructor
  \<open>ShaHash\<close>.
\<close>

fun collectNames ::
  "'h world \<Rightarrow> bool \<Rightarrow> PyPtr list \<Rightarrow> (string \<times> PyPtr) list \<Rightarrow> cpp_error + (string \<times> PyPtr) list"
where
  "collectNames w ignoreSpecialNames [] names = Inr names"
| "collectNames w ignoreSpecialNames (k # keys) names =
     (case PyUnicode_AsUTF8 w k of
        None \<Rightarrow> collectNames w ignoreSpecialNames keys names
      | Some name \<Rightarrow>
          if ignoreSpecialNames then
            bindE (isSpecialIgnorableName name) (\<lambda>special.
              collectNames w ignoreSpecialNames keys
                (if special then names else map_assign name k names))
          else collectNames w ignoreSpecialNames keys (map_assign name k names))"

definition visitDict ::
  "'h world \<Rightarrow> ('h, 's) visitor_type \<Rightarrow> PyPtr option \<Rightarrow> bool \<Rightarrow> 's \<Rightarrow> cpp_error + 's"
where
  "visitDict w visitor d ignoreSpecialNames s =
     (case d of
        None \<Rightarrow> Inr (visitHash visitor (ShaHash w 0) s)
      | Some dp \<Rightarrow>
          if \<not> PyDict_Check w dp
          then Inr (visitErr visitor (''not a dict: '' @ tp_name w (ob_type (heap w dp))) s)
          else
            bindE (iterate w dp) (\<lambda>keys.
            bindE (collectNames w ignoreSpecialNames keys []) (\<lambda>names.
              Inr (fold
                    (\<lambda>nameAndO.
                       case PyDict_GetItem w dp (snd nameAndO) of
                         None \<Rightarrow> visitErr visitor ''dict getitem empty''
                       | Some val \<Rightarrow> visitNamedTopo visitor (fst nameAndO) (OfPyobj val))
                    names
                    (visitHash visitor (ShaHash w (int (length names))) s)))))"

definition visitTuple ::
  "'h world \<Rightarrow> ('h, 's) visitor_type \<Rightarrow> PyPtr option \<Rightarrow> 's \<Rightarrow> 's"
where
  "visitTuple w visitor t s =
     (case t of
        None \<Rightarrow> visitHash visitor (ShaHash w 0) s
      | Some tp \<Rightarrow>
          fold (\<lambda>item. visitTopo visitor (OfPyobj item)) (tupleItems w tp)
            (visitHash visitor (ShaHash w (PyTuple_Size w tp)) s))"

definition visitDictOrTuple ::
  "'h world \<Rightarrow> ('h, 's) visitor_type \<Rightarrow> PyPtr option \<Rightarrow> 's \<Rightarrow> cpp_error + 's"
where
  "visitDictOrTuple w visitor t s =
     (case t of
        None \<Rightarrow> Inr (visitHash visitor (ShaHash w 0) s)
      | Some tp \<Rightarrow>
          if PyDict_Check w tp then visitDict w visitor t False s
          else if PyTuple_Check w tp then Inr (visitTuple w visitor t s)
          else Inr (visitErr visitor ''not a dict or tuple'' s))"

subsection \<open>The dispatch rules\<close>

text \<open>
  The block of \<open>walk\<close> for module objects: the name of the module when the block
  returns early (the module is the registry's entry for its own name, and the name is
  canonical), nothing when control falls out of it.
\<close>

definition canonicalModule :: "'h world \<Rightarrow> PyPtr \<Rightarrow> cpp_error + string option" where
  "canonicalModule w h =
     (if PyModule_Check w h then
        (case PyObject_GetAttrString w h ''__name__'' of
           None \<Rightarrow> Inr None
         | Some name \<Rightarrow>
             (case PyUnicode_AsUTF8 w name of
                None \<Rightarrow> Inr None
              | Some moduleName \<Rightarrow>
                  (case sysModuleModules_GetItem w name of
                     None \<Rightarrow> Inr None
                   | Some moduleObject \<Rightarrow>
                       if moduleObject = h then
                         bindE (isCanonicalName moduleName) (\<lambda>canonical.
                           if canonical then Inr (Some moduleName) else Inr None)
                       else Inr None)))
      else Inr None)"

text \<open>The branch for code objects.\<close>

definition walkCode ::
  "'h world \<Rightarrow> ('h, 's) visitor_type \<Rightarrow> PyCodeObject \<Rightarrow> 's \<Rightarrow> 's"
where
  "walkCode w visitor co s =
     run [visitHash visitor (ShaHash w 4),
          visitHash visitor (ShaHash w (co_argcount co)),
          visitHash visitor (ShaHash w (co_kwonlyargcount co)),
          visitHash visitor (ShaHash w (co_nlocals co)),
          visitHash visitor (ShaHash w (co_stacksize co)),
          visitHash visitor (ShaHash w (co_firstlineno co)),
          visitHash visitor (SHA1 w (co_code co)),
          visitTuple w visitor (co_consts co),
          visitTuple w visitor (co_names co),
          visitTuple w visitor (co_varnames co),
          visitTuple w visitor (co_freevars co),
          visitTuple w visitor (co_cellvars co),
          visitTopo visitor (OfPyobj (co_name co)),
          (if PY_MINOR_VERSION w \<ge> 10
           then visitTopo visitor (OfPyobj (co_linetable co))
           else visitTopo visitor (OfPyobj (co_lnotab co)))] s"

text \<open>
  The callback the function branch hands to \<open>visitCompilerVisibleGlobals\<close>, run on
  the pairs it is called with.
\<close>

fun visitGlobals ::
  "('h, 's) visitor_type \<Rightarrow> (string \<times> PyPtr) list \<Rightarrow> 's \<Rightarrow> cpp_error + 's"
where
  "visitGlobals visitor [] s = Inr s"
| "visitGlobals visitor ((name, val) # rest) s =
     bindE (isSpecialIgnorableName name) (\<lambda>special.
       visitGlobals visitor rest
         (if \<not> special then visitNamedTopo visitor name (OfPyobj val) s else s))"

text \<open>
  The branch for function objects.  The items of a tuple are never null, so the test
  \<open>o && PyCell_Check(o)\<close> of the closure loop is \<open>PyCell_Check\<close>.
\<close>

definition walkFunction ::
  "'h world \<Rightarrow> ('h, 's) visitor_type \<Rightarrow> PyFunctionObject \<Rightarrow> 's \<Rightarrow> cpp_error + 's"
where
  "walkFunction w visitor f s =
     (let s1 = visitHash visitor (ShaHash w 5) s;
          s2 = (case func_closure f of
                  Some closure \<Rightarrow>
                    fold (\<lambda>item. if PyCell_Check w item
                                   then visitTopo visitor (OfPyobj item) else (\<lambda>s. s))
                      (tupleItems w closure)
                      (visitHash visitor (ShaHash w (PyTuple_Size w closure)) s1)
                | None \<Rightarrow> visitHash visitor (ShaHash w 0) s1);
          s3 = visitTopo visitor (OfPyobj (func_name f)) s2;
          s4 = visitTopo visitor (OfPyobj (func_code f)) s3
      in
        bindE (visitDictOrTuple w visitor (func_annotations f) s4) (\<lambda>s5.
        bindE (visitDictOrTuple w visitor (func_kwdefaults f)
                 (visitTuple w visitor (func_defaults f) s5)) (\<lambda>s7.
        let s8 = visitHash visitor (ShaHash w 1) s7 in
        bindE (case func_globals f of
                 None \<Rightarrow> Inr s8
               | Some globals \<Rightarrow>
                   if PyDict_Check w globals
                   then visitGlobals visitor
                          (visitCompilerVisibleGlobals w (func_code f) globals) s8
                   else Inr s8) (\<lambda>s9.
          Inr (visitHash visitor (ShaHash w 0) s9)))))"

text \<open>The branch for type objects that wrap no type of the type graph.\<close>

definition walkClass ::
  "'h world \<Rightarrow> ('h, 's) visitor_type \<Rightarrow> PyPtr option \<Rightarrow> PyPtr option \<Rightarrow> 's \<Rightarrow> cpp_error + 's"
where
  "walkClass w visitor tp_dict tp_bases s =
     (let s1 = visitHash visitor (ShaHash w 0) (visitHash visitor (ShaHash w 6) s) in
      bindE (case tp_dict of
               None \<Rightarrow> Inr s1
             | Some d \<Rightarrow> visitDict w visitor (Some d) True s1) (\<lambda>s2.
      bindE (case tp_bases of
               None \<Rightarrow> Inr (visitHash visitor (ShaHash w 0) s2)
             | Some bases \<Rightarrow>
                 bindE (iterate w bases) (\<lambda>ts.
                   Inr (fold (\<lambda>t. visitTopo visitor (OfPyobj t)) ts
                          (visitHash visitor (ShaHash w 0) s2)))) (\<lambda>s3.
        Inr (visitHash visitor (ShaHash w 0) s3))))"

text \<open>
  The rules from the check for a type object that wraps a type of the type graph down to
  the fallback: what \<open>walk\<close> does with a node that none of the rules before them
  takes.  \<open>PyDescr_TYPE\<close> and \<open>PyDescr_NAME\<close> read the fields of a descriptor
  struct.
\<close>

definition walkStructural ::
  "'h world \<Rightarrow> ('h, 's) visitor_type \<Rightarrow> PyPtr \<Rightarrow> 's \<Rightarrow> cpp_error + 's"
where
  "walkStructural w visitor h s =
     (case (if PyType_Check w h then extractTypeFrom w h else None) of
        Some argType \<Rightarrow>
          Inr (run [visitHash visitor (ShaHash w 3), visitTopo visitor (OfType argType)] s)
      | None \<Rightarrow>
          (case body (heap w h) of
             CodeBody co \<Rightarrow> Inr (walkCode w visitor co s)
           | FunctionBody f \<Rightarrow> walkFunction w visitor f s
           | TypeBody tp_dict tp_bases \<Rightarrow> walkClass w visitor tp_dict tp_bases s
           | b \<Rightarrow>
               if ob_type (heap w h) = PyStaticMethod_Type
                  \<or> ob_type (heap w h) = PyClassMethod_Type
               then
                 Inr (run [if ob_type (heap w h) = PyStaticMethod_Type
                           then visitHash visitor (ShaHash w 7)
                           else visitHash visitor (ShaHash w 8),
                           case PyObject_GetAttrString w h ''__func__'' of
                             None \<Rightarrow> visitErr visitor ''not a func obj''
                           | Some funcObj \<Rightarrow> visitTopo visitor (OfPyobj funcObj)] s)
               else if PyTuple_Check w h
               then
                 Inr (fold (\<lambda>item. visitTopo visitor (OfPyobj item)) (tupleItems w h)
                        (run [visitHash visitor (ShaHash w 9),
                              visitHash visitor (ShaHash w (PyTuple_Size w h))] s))
               else if PyDict_Check w h
                       \<or> PySet_Check w h
                       \<or> PyList_Check w h
                       \<or> ob_type (heap w h) = weakSetType w
                       \<or> ob_type (heap w h) = weakKeyDictType w
                       \<or> ob_type (heap w h) = weakValueDictType w
               then
                 Inr (run [visitHash visitor (ShaHash w 10),
                           visitTopo visitor (OfPyobj (ob_type (heap w h)))] s)
               else if PyCell_Check w h
               then
                 Inr (run (visitHash visitor (ShaHash w 11) #
                           (case PyCell_Get w h of
                              Some c \<Rightarrow> [visitHash visitor (ShaHash w 1),
                                          visitTopo visitor (OfPyobj c)]
                            | None \<Rightarrow> [visitHash visitor (ShaHash w 0)])) s)
               else if ob_type (heap w h) = PyClassMethodDescr_Type
                       \<or> ob_type (heap w h) = PyMethodDescr_Type
               then
                 (case b of
                    DescrBody d_type d_name \<Rightarrow>
                      Inr (run [visitTopo visitor (OfPyobj d_type),
                                visitTopo visitor (OfPyobj d_name)] s)
                  | _ \<Rightarrow> Inl undefined_behaviour)
               else Inr (visitTopo visitor (OfPyobj (ob_type (heap w h))) s)))"

text \<open>\<open>walk\<close>: the rules in the order of the source, the first that matches wins.\<close>

definition walk ::
  "'h world \<Rightarrow> TypeOrPyobj \<Rightarrow> ('h, 's) visitor_type \<Rightarrow> 's \<Rightarrow> cpp_error + 's"
where
  "walk w obj visitor s =
     (case obj of
        OfType objType \<Rightarrow>
          Inr (fold (emit visitor) (visitCompilerVisibleInternals w objType)
                 (visitHash visitor (ShaHash w 1) s))
      | OfPyobj h \<Rightarrow>
          if ob_type (heap w h) = environType w
          then Inr (visitHash visitor (ShaHash w 13) s)
          else if isSimpleConstant w h then Inr s
          else
            (case extractTypeFrom w (ob_type (heap w h)) of
               Some argType \<Rightarrow>
                 Inr (run [visitHash visitor (ShaHash w 2),
                           visitTopo visitor (OfType argType)] s)
             | None \<Rightarrow>
                 bindE (canonicalModule w h) (\<lambda>m.
                   case m of
                     Some moduleName \<Rightarrow>
                       Inr (run [visitHash visitor (ShaHash w 12),
                                 visitName visitor moduleName] s)
                   | None \<Rightarrow>
                       bindE (isPyObjectGloballyIdentifiableAndStable w h) (\<lambda>stable.
                         if stable then
                           bindE (attrAsString w h ''__module__'') (\<lambda>moduleName.
                           bindE (attrAsString w h ''__name__'') (\<lambda>clsName.
                             Inr (run [visitHash visitor (ShaHash w 2),
                                       visitName visitor (moduleName @ ''|'' @ clsName)] s)))
                         else walkStructural w visitor h s))))"

subsection \<open>Records, the walk cache and the stability check\<close>

text \<open>\<open>recordWalk\<close>: the walk with five callbacks that append to a vector.\<close>

definition recorder :: "('h, 'h VisitRecord list) visitor_type" where
  "recorder =
     \<lparr> visitHash = (\<lambda>h records. records @ [HashRecord h]),
       visitName = (\<lambda>h records. records @ [StringRecord h]),
       visitTopo = (\<lambda>o' records. records @ [TopoRecord o']),
       visitNamedTopo = (\<lambda>n o' records. records @ [NameValuePairRecord n o']),
       visitErr = (\<lambda>err records. records @ [ErrorRecord err]) \<rparr>"

definition recordWalk :: "'h world \<Rightarrow> TypeOrPyobj \<Rightarrow> cpp_error + 'h VisitRecord list" where
  "recordWalk w obj = walk w obj recorder []"

definition toString :: "'h world \<Rightarrow> 'h VisitRecord \<Rightarrow> string" where
  "toString w r =
     (case r of
        ErrorRecord err \<Rightarrow> ''Err('' @ err @ '')''
      | StringRecord name \<Rightarrow> ''String('' @ name @ '')''
      | HashRecord h \<Rightarrow> ''Hash('' @ digestAsHexString w h @ '')''
      | TopoRecord topo \<Rightarrow> ''Topo('' @ topoName w topo @ '')''
      | NameValuePairRecord name topo \<Rightarrow>
          ''NameValuePair('' @ name @ ''='' @ topoName w topo @ '')'')"

definition stringifyVisitRecord :: "'h world \<Rightarrow> 'h VisitRecord list \<Rightarrow> string list" where
  "stringifyVisitRecord w records = map (toString w) records"

text \<open>Writing a number to a stream: its decimal digits.\<close>

fun decimal :: "nat \<Rightarrow> string" where
  "decimal n =
     (if n < 10 then [char_of (48 + n)]
      else decimal (n div 10) @ [char_of (48 + n mod 10)])"

declare decimal.simps [simp del]

definition pad :: "string \<Rightarrow> nat \<Rightarrow> string" where
  "pad s ct = (if length s > ct then take ct s else s @ replicate (ct - length s) (CHR '' ''))"

definition newline :: string where
  "newline = [CHR 0x0A]"

definition diffLines :: "string list \<Rightarrow> string list \<Rightarrow> string" where
  "diffLines linesLeft linesRight =
     concat (map
       (\<lambda>j. ''    ''
            @ (if j < length linesLeft then pad (linesLeft ! j) 80 else pad [] 80)
            @ ''   |   ''
            @ (if j < length linesRight then pad (linesRight ! j) 80 else pad [] 80)
            @ newline)
       [0 ..< max (length linesLeft) (length linesRight)])"

text \<open>
  The walker object: \<open>mPastVisits\<close>, the walk cache, as the list of its entries in the
  order in which iteration yields them, one entry for a node.  The live object model is
  not the walker's and changes under it, so every walk reads a snapshot of its own:
  \<open>walks\<close> counts the walks made so far, and the walk made when it is \<open>t\<close> reads the
  snapshot \<open>env t\<close> of the environment \<open>env\<close>.
\<close>

record 'h CompilerVisibleObjectVisitor =
  mPastVisits :: "(TypeOrPyobj \<times> 'h VisitRecord list) list"
  walks :: nat

definition resetCache :: "'h CompilerVisibleObjectVisitor \<Rightarrow> 'h CompilerVisibleObjectVisitor" where
  "resetCache self = self \<lparr> mPastVisits := [] \<rparr>"

text \<open>The first loop of \<open>checkForInstability\<close>: the nodes whose record has changed.\<close>

fun findUnstable ::
  "(nat \<Rightarrow> 'h world) \<Rightarrow> nat \<Rightarrow> (TypeOrPyobj \<times> 'h VisitRecord list) list
     \<Rightarrow> cpp_error + TypeOrPyobj list"
where
  "findUnstable env t [] = Inr []"
| "findUnstable env t (it # rest) =
     bindE (recordWalk (env t) (fst it)) (\<lambda>fresh.
     bindE (findUnstable env (Suc t) rest) (\<lambda>unstable.
       Inr (if snd it \<noteq> fresh then fst it # unstable else unstable)))"

text \<open>
  The second loop: the report on the first thousand unstable nodes, each walked once
  more.  \<open>mPastVisits[node]\<close> is the stored record (an empty one for a node that has
  none).
\<close>

definition pastVisit ::
  "(TypeOrPyobj \<times> 'h VisitRecord list) list \<Rightarrow> TypeOrPyobj \<Rightarrow> 'h VisitRecord list"
where
  "pastVisit cache obj = (case map_of cache obj of None \<Rightarrow> [] | Some records \<Rightarrow> records)"

fun reportUnstable ::
  "(nat \<Rightarrow> 'h world) \<Rightarrow> (TypeOrPyobj \<times> 'h VisitRecord list) list \<Rightarrow> nat \<Rightarrow> nat
     \<Rightarrow> TypeOrPyobj list \<Rightarrow> cpp_error + string"
where
  "reportUnstable env cache t k [] = Inr []"
| "reportUnstable env cache t k (u # us) =
     (if k < 1000 then
        bindE (recordWalk (env t) u) (\<lambda>fresh.
        bindE (reportUnstable env cache (Suc t) (Suc k) us) (\<lambda>rest.
          Inr (decimal k @ '' -> '' @ topoName (env t) u @ newline
               @ diffLines (stringifyVisitRecord (env t) fresh)
                   (stringifyVisitRecord (env t) (pastVisit cache u))
               @ rest)))
      else Inr [])"

definition checkForInstability ::
  "(nat \<Rightarrow> 'h world) \<Rightarrow> 'h CompilerVisibleObjectVisitor
     \<Rightarrow> cpp_error + 'h CompilerVisibleObjectVisitor"
where
  "checkForInstability env self =
     bindE (findUnstable env (walks self) (mPastVisits self)) (\<lambda>unstable.
       let t = walks self + length (mPastVisits self) in
       if unstable = [] then Inr (self \<lparr> walks := t \<rparr>)
       else
         bindE (reportUnstable env (mPastVisits self) t 0 unstable) (\<lambda>report.
           Inl (runtime_error
                  (''Found '' @ decimal (length unstable) @ '' unstable objects'' @ newline
                   @ report))))"

text \<open>
  \<open>visit\<close>: the new state of the walker and of the visitor, or the exception thrown.
\<close>

definition visit ::
  "(nat \<Rightarrow> 'h world) \<Rightarrow> 'h CompilerVisibleObjectVisitor \<Rightarrow> TypeOrPyobj
     \<Rightarrow> ('h, 's) visitor_type \<Rightarrow> 's \<Rightarrow> cpp_error + 'h CompilerVisibleObjectVisitor \<times> 's"
where
  "visit env self obj visitor s =
     bindE (recordWalk (env (walks self)) obj) (\<lambda>records.
       let self1 = self \<lparr> walks := Suc (walks self) \<rparr> in
       bindE (case map_of (mPastVisits self1) obj of
                None \<Rightarrow> Inr (self1 \<lparr> mPastVisits := mPastVisits self1 @ [(obj, records)] \<rparr>)
              | Some stored \<Rightarrow>
                  if stored \<noteq> records then
                    bindE (checkForInstability env self1) (\<lambda>self2.
                      Inl (runtime_error
                             (''Found unstable object, but somehow our instability check''
                              @ '' didn't throw an exception?''
                              @ topoName (env (walks self2)) obj)))
                  else Inr self1) (\<lambda>self3.
       bindE (walk (env (walks self3)) obj visitor s) (\<lambda>s'.
         Inr (self3 \<lparr> walks := Suc (walks self3) \<rparr>, s'))))"

text \<open>Making, in order, the calls that the entries of a record stand for.\<close>

definition replay :: "('h, 's) visitor_type \<Rightarrow> 'h VisitRecord list \<Rightarrow> 's \<Rightarrow> 's" where
  "replay visitor records s = fold (emit visitor) records s"

subsection \<open>Reaching the structural rules\<close>

text \<open>
  A \<open>std::string\<close> holds fewer than \<open>2^64\<close> bytes.
\<close>

definition cpp_string :: "string \<Rightarrow> bool" where
  "cpp_string s = (length s < 2 ^ 64)"

text \<open>
  The node gets past the first six rules of \<open>walk\<close>: its type is not the environment's,
  it is no simple constant, its type wraps no type of the type graph, it is no canonical
  module, and it is not globally identifiable and stable.
\<close>

definition reachesStructuralRules :: "'h world \<Rightarrow> PyPtr \<Rightarrow> bool" where
  "reachesStructuralRules w h =
     (ob_type (heap w h) \<noteq> environType w
      \<and> \<not> isSimpleConstant w h
      \<and> extractTypeFrom w (ob_type (heap w h)) = None
      \<and> canonicalModule w h = Inr None
      \<and> isPyObjectGloballyIdentifiableAndStable w h = Inr False)"

text \<open>
  The object model in which the code object at \<open>h\<close> has the fields \<open>co\<close>, and
  everything else is as it was.
\<close>

definition replaceCode :: "'h world \<Rightarrow> PyPtr \<Rightarrow> PyCodeObject \<Rightarrow> 'h world" where
  "replaceCode w h co = w \<lparr> heap := (heap w) (h := (heap w h) \<lparr> body := CodeBody co \<rparr>) \<rparr>"

subsection \<open>What a dictionary holds for the walker\<close>




subsection \<open>An object graph to run the walker on\<close>

text \<open>
  A small object graph, with digests that are plain integers: the module
  \<open>posixpath\<close> and its function \<open>join\<close>; an instance of a type of the type graph;
  a function \<open>f\<close> of the module \<open>__main__\<close>, where the name \<open>f\<close> has since been
  bound to another object, with its code object, a closure of a cell and of an item that
  is no cell, annotations, defaults and keyword defaults; a function \<open>g\<close> whose
  positional defaults are a dictionary; two dictionaries that hold the same entries in
  opposite orders; and a class.
\<close>

definition text_object :: "string \<Rightarrow> PyObject" where
  "text_object s = \<lparr> ob_type = PyUnicode_Type, body = UnicodeBody s, attrs = Map.empty \<rparr>"

definition plain_object :: "PyPtr \<Rightarrow> PyBody \<Rightarrow> PyObject" where
  "plain_object t b = \<lparr> ob_type = t, body = b, attrs = Map.empty \<rparr>"

definition demo_code :: PyCodeObject where
  "demo_code =
     \<lparr> co_argcount = 1, co_kwonlyargcount = 1, co_nlocals = 2, co_stacksize = 3,
       co_flags = 67, co_firstlineno = 10, co_code = ''dS'',
       co_consts = Some (Obj 11), co_names = Some (Obj 12), co_varnames = Some (Obj 19),
       co_freevars = Some (Obj 12), co_cellvars = Some (Obj 12),
       co_filename = Obj 15, co_name = Obj 14, co_linetable = Obj 13, co_lnotab = Obj 13 \<rparr>"

definition demo_function :: PyFunctionObject where
  "demo_function =
     \<lparr> func_closure = Some (Obj 21), func_name = Obj 14, func_code = Obj 10,
       func_globals = Some (Obj 30), func_annotations = Some (Obj 31),
       func_defaults = Some (Obj 22), func_kwdefaults = Some (Obj 32) \<rparr>"

definition demo_function_g :: PyFunctionObject where
  "demo_function_g =
     \<lparr> func_closure = None, func_name = Obj 14, func_code = Obj 10,
       func_globals = None, func_annotations = None,
       func_defaults = Some (Obj 32), func_kwdefaults = Some (Obj 32) \<rparr>"

definition demo_object :: "nat \<Rightarrow> PyObject" where
  "demo_object n =
     (if n = 1 then text_object ''posixpath''
      else if n = 2 then text_object ''join''
      else if n = 3 then
        \<lparr> ob_type = Obj 8, body = ModuleBody,
          attrs = [''__name__'' \<mapsto> Obj 1, ''join'' \<mapsto> Obj 4] \<rparr>
      else if n = 4 then
        \<lparr> ob_type = PyFunction_Type, body = FunctionBody demo_function,
          attrs = [''__module__'' \<mapsto> Obj 1, ''__name__'' \<mapsto> Obj 2] \<rparr>
      else if n = 5 then plain_object (Obj 6) OtherBody
      else if n = 10 then plain_object (Obj 9) (CodeBody demo_code)
      else if n = 11 then plain_object (Obj 18) (TupleBody [Py_None, Obj 1])
      else if n = 12 then plain_object (Obj 18) (TupleBody [])
      else if n = 13 then plain_object PyBytes_Type (BytesBody ''ab'')
      else if n = 14 then text_object ''f''
      else if n = 15 then text_object ''/tmp/a.py''
      else if n = 16 then text_object ''__main__''
      else if n = 17 then
        \<lparr> ob_type = Obj 8, body = ModuleBody,
          attrs = [''__name__'' \<mapsto> Obj 16, ''f'' \<mapsto> Obj 24] \<rparr>
      else if n = 19 then plain_object (Obj 18) (TupleBody [Obj 40, Obj 41])
      else if n = 20 then
        \<lparr> ob_type = PyFunction_Type, body = FunctionBody demo_function,
          attrs = [''__module__'' \<mapsto> Obj 16, ''__name__'' \<mapsto> Obj 14] \<rparr>
      else if n = 21 then plain_object (Obj 18) (TupleBody [Obj 23, Obj 1])
      else if n = 22 then plain_object (Obj 18) (TupleBody [Py_None])
      else if n = 23 then plain_object (Obj 25) (CellBody (Some (Obj 1)))
      else if n = 24 then plain_object PyFunction_Type (FunctionBody demo_function)
      else if n = 30 then plain_object PyDict_Type (DictBody [(Obj 14, Obj 24), (Obj 2, Obj 4)])
      else if n = 31 then plain_object PyDict_Type (DictBody [(Obj 40, PyLong_Type)])
      else if n = 32 then
        plain_object PyDict_Type (DictBody [(Obj 41, Py_True), (Obj 40, Py_None)])
      else if n = 33 then
        plain_object PyDict_Type
          (DictBody [(Obj 41, Obj 1), (Obj 40, Obj 2), (Obj 42, Py_None), (Obj 43, Py_True),
                     (Obj 44, Obj 20)])
      else if n = 34 then
        plain_object PyDict_Type
          (DictBody [(Obj 44, Obj 20), (Obj 43, Py_True), (Obj 42, Py_None), (Obj 40, Obj 2),
                     (Obj 41, Obj 1)])
      else if n = 35 then plain_object PyType_Type (TypeBody (Some (Obj 33)) (Some (Obj 36)))
      else if n = 36 then plain_object (Obj 18) (TupleBody [PyBaseObject_Type])
      else if n = 40 then text_object ''x''
      else if n = 41 then text_object ''y''
      else if n = 42 then text_object ''__doc__''
      else if n = 43 then plain_object PyLong_Type LongBody
      else if n = 44 then text_object ''__init__''
      else if n = 50 then plain_object PyFunction_Type (FunctionBody demo_function_g)
      else plain_object PyType_Type (TypeBody None None))"

definition demo_heap :: "PyPtr \<Rightarrow> PyObject" where
  "demo_heap p =
     (case p of
        Obj n \<Rightarrow> demo_object n
      | Py_None \<Rightarrow> plain_object (Obj 0) OtherBody
      | Py_True \<Rightarrow> plain_object PyBool_Type LongBody
      | Py_False \<Rightarrow> plain_object PyBool_Type LongBody
      | _ \<Rightarrow> plain_object PyType_Type (TypeBody None None))"

definition demo :: "int world" where
  "demo =
     \<lparr> heap = demo_heap,
       sys_modules = [''posixpath'' \<mapsto> Obj 3, ''__main__'' \<mapsto> Obj 17],
       builtinsModule = Obj 60,
       builtinsModuleDict = Obj 61,
       environType = Obj 62,
       weakSetType = Obj 63,
       weakKeyDictType = Obj 64,
       weakValueDictType = Obj 65,
       PY_MINOR_VERSION = 10,
       tp_name = (\<lambda>p. ''type''),
       extractTypeFrom = (\<lambda>p. if p = Obj 6 then Some (TypePtr 7) else None),
       visitCompilerVisibleInternals = (\<lambda>t. [StringRecord ''ListOf'']),
       visitCompilerVisibleGlobals =
         (\<lambda>code globals.
            if code = Obj 10 \<and> globals = Obj 30
            then [(''join'', Obj 4), (''__file__'', Obj 15), (''f'', Obj 24)]
            else []),
       ShaHash = (\<lambda>n. n),
       SHA1 = (\<lambda>s. 1000 + int (length s)),
       digestAsHexString = (\<lambda>h. decimal (nat h)),
       topoName =
         (\<lambda>t. case t of OfType (TypePtr n) \<Rightarrow> ''Type'' @ decimal n | OfPyobj p \<Rightarrow> ''object'') \<rparr>"

text \<open>
  An environment in which the type \<open>TypePtr 0\<close> decomposes in one way at the first walk and
  in another way at every walk after it.
\<close>

definition demo_env :: "nat \<Rightarrow> int world" where
  "demo_env t =
     demo \<lparr> visitCompilerVisibleInternals :=
              (\<lambda>tp. if t = 0 then [StringRecord ''before''] else [StringRecord ''after'']) \<rparr>"

text \<open>The same for a walk that may throw: the exception, or the replayed record.\<close>

definition simE :: "('h, 's) visitor_type \<Rightarrow> 's \<Rightarrow> cpp_error + 'h VisitRecord list \<Rightarrow> cpp_error + 's" where
  "simE v s r = (case r of Inl e \<Rightarrow> Inl e | Inr acc \<Rightarrow> Inr (replay v acc s))"

section \<open>Properties\<close>

subsection \<open>The special-name filter\<close>

lemma unat_npos: "unat npos = 2 ^ 64 - 1"
  unfolding npos_def by (simp add: unsigned_minus_1_eq_mask mask_eq_exp_minus_1)

lemma str_size_sub2:
  assumes "2 \<le> length name" "length name < 2 ^ 64"
  shows "unat (str_size name - 2) = length name - 2"
proof -
  have a: "unat (str_size name) = length name"
    using assms by (simp add: str_size_def unat_of_nat)
  have "(2 :: size_t) \<le> str_size name"
    using assms a by (simp add: word_le_nat_alt)
  then show ?thesis using a by (simp add: unat_sub)
qed

lemma take2_len: "take 2 name = ''__'' \<Longrightarrow> 2 \<le> length name"
  by (cases name; cases "tl name"; auto)

lemma isSpecialIgnorableName_eq:
  assumes "length name < 2 ^ 64"
  shows "isSpecialIgnorableName name =
      Inr (2 \<le> length name \<and> take 2 name = ''__'' \<and> drop (length name - 2) name = ''__''
           \<and> name \<notin> set canonicalMagicMethods)"
proof (cases "take 2 name = ''__''")
  case False
  then show ?thesis by (simp add: isSpecialIgnorableName_def substr_def bindE_def)
next
  case True
  then have len: "2 \<le> length name" by (rule take2_len)
  have u: "unat (str_size name - 2) = length name - 2" using len assms by (rule str_size_sub2)
  have nl: "\<not> length name < length name - 2" by simp
  show ?thesis using True len assms nl
    by (simp add: isSpecialIgnorableName_def substr_def bindE_def u unat_npos)
qed

text \<open>
  Claim C10.  For every name a \<open>std::string\<close> can hold (fewer than \<open>2^64\<close> bytes),
  \<open>isSpecialIgnorableName\<close> returns and throws nothing, although \<open>name.size() - 2\<close>
  wraps around for a name of fewer than two bytes: the short-circuit keeps the second
  \<open>substr\<close> from running there.  It returns true exactly when the name has at least two
  bytes, starts with \<open>__\<close>, ends with \<open>__\<close> (the two may overlap) and is not one of
  the listed magic method names; a name of fewer than two bytes is never filtered.
\<close>

theorem isSpecialIgnorableName_total_and_exact:
  assumes "length name < 2 ^ 64"
  shows "isSpecialIgnorableName name =
      Inr (2 \<le> length name \<and> take 2 name = ''__'' \<and> drop (length name - 2) name = ''__''
           \<and> name \<notin> set canonicalMagicMethods)
    \<and> (length name < 2 \<longrightarrow> isSpecialIgnorableName name = Inr False)"
  using isSpecialIgnorableName_eq [OF assms] by simp

theorem isSpecialIgnorableName_total_and_exact_witness:
  "isSpecialIgnorableName ''__'' = Inr True
   \<and> isSpecialIgnorableName ''___'' = Inr True
   \<and> isSpecialIgnorableName ''_'' = Inr False
   \<and> isSpecialIgnorableName [] = Inr False
   \<and> isSpecialIgnorableName ''__init__'' = Inr False
   \<and> isSpecialIgnorableName ''__loader__'' = Inr True
   \<and> isSpecialIgnorableName ''__x'' = Inr False"
  using isSpecialIgnorableName_total_and_exact [of "''__''"]
    isSpecialIgnorableName_total_and_exact [of "''___''"]
    isSpecialIgnorableName_total_and_exact [of "''_''"]
    isSpecialIgnorableName_total_and_exact [of "[]"]
    isSpecialIgnorableName_total_and_exact [of "''__init__''"]
    isSpecialIgnorableName_total_and_exact [of "''__loader__''"]
    isSpecialIgnorableName_total_and_exact [of "''__x''"]
  by (simp add: canonicalMagicMethods_def)

subsection \<open>Canonical names\<close>

lemma ucast_npos: "(ucast (- 1 :: 64 word) :: 32 word) = - 1"
  by (simp add: bit_eq_iff bit_simps)

lemma isCanonicalName_no_dot:
  "CHR ''.'' \<notin> set name \<Longrightarrow> isCanonicalName name = Inr (name \<in> set canonicalPythonModuleNames)"
  by (simp add: isCanonicalName_def str_find_def npos_def Let_def ucast_npos bindE_def)

subsection \<open>The stream and the record\<close>

lemma replay_Nil [simp]: "replay v [] s = s"
  by (simp add: replay_def)

lemma replay_append: "replay v (xs @ ys) s = replay v ys (replay v xs s)"
  by (simp add: replay_def)

lemma replay_snoc: "replay v (xs @ [r]) s = emit v r (replay v xs s)"
  by (simp add: replay_def)

lemma sim_visitHash: "visitHash v h (replay v acc s) = replay v (visitHash recorder h acc) s"
  by (simp add: recorder_def replay_snoc)

lemma sim_visitName: "visitName v n (replay v acc s) = replay v (visitName recorder n acc) s"
  by (simp add: recorder_def replay_snoc)

lemma sim_visitTopo: "visitTopo v t (replay v acc s) = replay v (visitTopo recorder t acc) s"
  by (simp add: recorder_def replay_snoc)

lemma sim_visitNamedTopo:
  "visitNamedTopo v n t (replay v acc s) = replay v (visitNamedTopo recorder n t acc) s"
  by (simp add: recorder_def replay_snoc)

lemma sim_visitErr: "visitErr v e (replay v acc s) = replay v (visitErr recorder e acc) s"
  by (simp add: recorder_def replay_snoc)

lemmas sim_calls = sim_visitHash sim_visitName sim_visitTopo sim_visitNamedTopo sim_visitErr

lemma sim_fold:
  assumes "\<And>x acc. f x (replay v acc s) = replay v (g x acc) s"
  shows "fold f xs (replay v acc s) = replay v (fold g xs acc) s"
  using assms by (induction xs arbitrary: acc) simp_all

lemma sim_emit: "emit v r (replay v acc s) = replay v (emit recorder r acc) s"
  by (cases r) (simp_all add: sim_calls)

lemma sim_visitTuple:
  "visitTuple w v t (replay v acc s) = replay v (visitTuple w recorder t acc) s"
  unfolding visitTuple_def
  by (cases t) (simp_all add: sim_calls sim_fold)

lemma simE_simps [simp]: "simE v s (Inl e) = Inl e" "simE v s (Inr acc) = Inr (replay v acc s)"
  by (simp_all add: simE_def)

lemma simE_bindE:
  "simE v s (bindE m f) = bindE m (\<lambda>x. simE v s (f x))"
  by (cases m) (simp_all add: bindE_def)

lemma sim_fold_items:
  "fold (\<lambda>x. case F x of None \<Rightarrow> visitErr v e | Some val \<Rightarrow> visitNamedTopo v (G x) (H val)) xs
      (replay v acc s)
   = replay v (fold (\<lambda>x. case F x of None \<Rightarrow> visitErr recorder e
                               | Some val \<Rightarrow> visitNamedTopo recorder (G x) (H val)) xs acc) s"
  by (rule sim_fold) (simp add: sim_calls split: option.split)

lemma sim_visitDict:
  "visitDict w v d ign (replay v acc s) = simE v s (visitDict w recorder d ign acc)"
proof (cases d)
  case None
  then show ?thesis by (simp add: visitDict_def sim_calls)
next
  case (Some dp)
  show ?thesis
  proof (cases "iterate w dp")
    case (Inl e)
    then show ?thesis using Some by (simp add: visitDict_def sim_calls bindE_def)
  next
    case (Inr keys)
    show ?thesis
      using Some Inr
      by (cases "collectNames w ign keys []")
         (simp_all add: visitDict_def sim_calls bindE_def sim_fold_items)
  qed
qed

lemma sim_visitDictOrTuple:
  "visitDictOrTuple w v t (replay v acc s) = simE v s (visitDictOrTuple w recorder t acc)"
  unfolding visitDictOrTuple_def
  by (cases t) (simp_all add: sim_calls sim_visitDict sim_visitTuple)

lemma sim_visitGlobals:
  "visitGlobals v gs (replay v acc s) = simE v s (visitGlobals recorder gs acc)"
proof (induction gs arbitrary: acc)
  case Nil
  then show ?case by simp
next
  case (Cons g gs)
  obtain name val where g: "g = (name, val)" by (cases g)
  show ?case
    unfolding g
    by (cases "isSpecialIgnorableName name") (simp_all add: bindE_def Cons.IH sim_calls)
qed

lemma sim_walkCode:
  "walkCode w v co (replay v acc s) = replay v (walkCode w recorder co acc) s"
  unfolding walkCode_def run_def
  by (simp add: sim_calls sim_visitTuple)


lemma sim_fold_cells:
  "fold (\<lambda>item. if P item then visitTopo v (F item) else (\<lambda>s. s)) xs (replay v acc s)
   = replay v (fold (\<lambda>item. if P item then visitTopo recorder (F item) else (\<lambda>s. s)) xs acc) s"
  by (rule sim_fold) (simp add: sim_calls)

lemma sim_fold_topo:
  "fold (\<lambda>item. visitTopo v (F item)) xs (replay v acc s)
   = replay v (fold (\<lambda>item. visitTopo recorder (F item)) xs acc) s"
  by (rule sim_fold) (simp add: sim_calls)

lemma bindE_simE:
  "bindE (simE v s m) f = bindE m (\<lambda>acc. f (replay v acc s))"
  by (cases m) (simp_all add: bindE_def)



lemma bindE_Inr [simp]: "bindE (Inr x) f = f x" and bindE_Inl [simp]: "bindE (Inl e) f = Inl e"
  by (simp_all add: bindE_def)

lemma bindE_case_option:
  "bindE (case c of None \<Rightarrow> a | Some x \<Rightarrow> b x) f
   = (case c of None \<Rightarrow> bindE a f | Some x \<Rightarrow> bindE (b x) f)"
  by (cases c) simp_all

lemma bindE_if: "bindE (if c then a else b) f = (if c then bindE a f else bindE b f)"
  by simp

lemma simE_case_option:
  "simE v s (case c of None \<Rightarrow> a | Some x \<Rightarrow> b x)
   = (case c of None \<Rightarrow> simE v s a | Some x \<Rightarrow> simE v s (b x))"
  by (cases c) simp_all

lemma simE_if: "simE v s (if c then a else b) = (if c then simE v s a else simE v s b)"
  by simp

lemma replay_case_option:
  "replay v (case c of None \<Rightarrow> a | Some x \<Rightarrow> b x) s
   = (case c of None \<Rightarrow> replay v a s | Some x \<Rightarrow> replay v (b x) s)"
  by (cases c) simp_all

lemma replay_if: "replay v (if c then a else b) s = (if c then replay v a s else replay v b s)"
  by simp

lemma bindE_assoc: "bindE (bindE m f) g = bindE m (\<lambda>x. bindE (f x) g)"
  by (cases m) simp_all

lemmas sim_distrib = bindE_assoc bindE_case_option bindE_if simE_case_option simE_if replay_case_option
  replay_if simE_bindE bindE_simE

lemma sim_walkFunction:
  "walkFunction w v f (replay v acc s) = simE v s (walkFunction w recorder f acc)"
  unfolding walkFunction_def Let_def
  by (cases "func_closure f")
     (simp_all add: sim_calls sim_fold_cells sim_visitDictOrTuple sim_visitTuple sim_visitGlobals
        sim_distrib cong: option.case_cong if_cong)

lemma sim_walkClass:
  "walkClass w v d b (replay v acc s) = simE v s (walkClass w recorder d b acc)"
  unfolding walkClass_def Let_def
  by (simp add: sim_calls sim_fold_topo sim_visitDict sim_distrib
       cong: option.case_cong if_cong)


lemma replay_run:
  "run cs (replay v acc s) = fold (\<lambda>call. call) cs (replay v acc s)"
  by (simp add: run_def)

lemma sim_walkStructural:
  "walkStructural w v h (replay v acc s) = simE v s (walkStructural w recorder h acc)"
proof (cases "if PyType_Check w h then extractTypeFrom w h else None")
  case (Some argType)
  then show ?thesis
    unfolding walkStructural_def run_def by (simp add: sim_calls)
next
  case None
  show ?thesis
  proof (cases "body (heap w h)")
    case (CodeBody co)
    then show ?thesis using None unfolding walkStructural_def
      by (simp add: sim_walkCode)
  next
    case (FunctionBody f)
    then show ?thesis using None unfolding walkStructural_def
      by (simp add: sim_walkFunction)
  next
    case (TypeBody d b)
    then show ?thesis using None unfolding walkStructural_def
      by (simp add: sim_walkClass)
  qed (use None in \<open>simp_all add: walkStructural_def run_def sim_calls sim_fold_topo sim_distrib
          PyTuple_Check_def PyDict_Check_def PySet_Check_def PyList_Check_def PyCell_Check_def
          PyCell_Get_def
        split: option.split\<close>)
qed


lemma sim_fold_emit:
  "fold (emit v) xs (replay v acc s) = replay v (fold (emit recorder) xs acc) s"
  by (rule sim_fold) (rule sim_emit)

lemma sim_walk:
  "walk w obj v (replay v acc s) = simE v s (walk w obj recorder acc)"
proof (cases obj)
  case (OfType t)
  then show ?thesis by (simp add: walk_def sim_calls sim_fold_emit)
next
  case (OfPyobj h)
  show ?thesis
  proof (cases "extractTypeFrom w (ob_type (heap w h))")
    case (Some argType)
    then show ?thesis using OfPyobj by (simp add: walk_def run_def sim_calls)
  next
    case None
    show ?thesis
    proof (cases "canonicalModule w h")
      case (Inl e)
      then show ?thesis using OfPyobj None by (simp add: walk_def run_def sim_calls)
    next
      case (Inr m)
      show ?thesis
      proof (cases m)
        case (Some moduleName)
        then show ?thesis using OfPyobj None Inr by (simp add: walk_def run_def sim_calls)
      next
        case mNone: None
        show ?thesis
          using OfPyobj None Inr mNone
          by (cases "isPyObjectGloballyIdentifiableAndStable w h";
              cases "attrAsString w h ''__module__''"; cases "attrAsString w h ''__name__''")
             (simp_all add: walk_def run_def sim_calls sim_walkStructural)
      qed
    qed
  qed
qed

lemma walk_is_replay_of_record: "walk w obj v s = (case recordWalk w obj of Inl e \<Rightarrow> Inl e | Inr records \<Rightarrow> Inr (replay v records s))"
  using sim_walk[of w obj v "[]" s] by (simp add: recordWalk_def simE_def)

subsection \<open>The walk cache and the stability check\<close>

lemma visit_stream:
  assumes "visit env self obj v s = Inr (self', s')"
  shows "\<exists>records. recordWalk (env (Suc (walks self))) obj = Inr records \<and> s' = replay v records s"
proof -
  from assms obtain records where r: "recordWalk (env (walks self)) obj = Inr records"
    by (cases "recordWalk (env (walks self)) obj") (simp_all add: visit_def)
  let ?self1 = "self \<lparr> walks := Suc (walks self) \<rparr>"
  let ?look = "case map_of (mPastVisits ?self1) obj of
                None \<Rightarrow> Inr (?self1 \<lparr> mPastVisits := mPastVisits ?self1 @ [(obj, records)] \<rparr>)
              | Some stored \<Rightarrow>
                  if stored \<noteq> records then
                    bindE (checkForInstability env ?self1) (\<lambda>self2.
                      Inl (runtime_error
                             (''Found unstable object, but somehow our instability check''
                              @ '' didn't throw an exception?''
                              @ topoName (env (walks self2)) obj)))
                  else Inr ?self1"
  have v: "visit env self obj v s = bindE ?look (\<lambda>self3.
       bindE (walk (env (walks self3)) obj v s) (\<lambda>s'.
         Inr (self3 \<lparr> walks := Suc (walks self3) \<rparr>, s')))"
    using r by (simp add: visit_def Let_def)
  have look: "\<And>self3. ?look = Inr self3 \<Longrightarrow> walks self3 = Suc (walks self)"
    by (auto split: option.splits if_splits simp: bindE_def split: sum.splits)
  from assms v obtain self3 where l: "?look = Inr self3"
    by (cases ?look) simp_all
  then have w3: "walks self3 = Suc (walks self)" by (rule look)
  from assms v l w3 obtain s2 where "walk (env (Suc (walks self))) obj v s = Inr s2" "s' = s2"
    by (cases "walk (env (Suc (walks self))) obj v s") simp_all
  then show ?thesis using walk_is_replay_of_record[of "env (Suc (walks self))" obj v s]
    by (cases "recordWalk (env (Suc (walks self))) obj") simp_all
qed

lemma findUnstable_Nil_iff:
  "findUnstable env t cache = Inr [] \<longleftrightarrow>
     (\<forall>k<length cache. recordWalk (env (t + k)) (fst (cache ! k)) = Inr (snd (cache ! k)))"
proof (induction cache arbitrary: t)
  case Nil
  then show ?case by simp
next
  case (Cons it rest)
  show ?case
  proof (cases "recordWalk (env t) (fst it)")
    case (Inl e)
    then show ?thesis by (auto intro: exI[of _ 0])
  next
    case (Inr fresh)
    have shift: "(\<forall>k<length (it # rest). recordWalk (env (t + k)) (fst ((it # rest) ! k)) = Inr (snd ((it # rest) ! k)))
       \<longleftrightarrow> (fresh = snd it \<and> (\<forall>k<length rest. recordWalk (env (Suc t + k)) (fst (rest ! k)) = Inr (snd (rest ! k))))"
      using Inr by (auto simp: nth_Cons less_Suc_eq_0_disj split: nat.splits)
    show ?thesis
      unfolding shift Cons.IH[of "Suc t", symmetric]
      using Inr
      by (cases "findUnstable env (Suc t) rest") auto
  qed
qed

lemma checkForInstability_raises_iff:
  "(\<exists>e. checkForInstability env self = Inl e) \<longleftrightarrow>
     (\<exists>k<length (mPastVisits self).
        recordWalk (env (walks self + k)) (fst (mPastVisits self ! k)) \<noteq> Inr (snd (mPastVisits self ! k)))"
proof (cases "findUnstable env (walks self) (mPastVisits self)")
  case (Inl e)
  then have "findUnstable env (walks self) (mPastVisits self) \<noteq> Inr []" by simp
  then show ?thesis using Inl
    unfolding findUnstable_Nil_iff by (auto simp: checkForInstability_def)
next
  case (Inr unstable)
  show ?thesis
  proof (cases unstable)
    case Nil
    then show ?thesis using Inr findUnstable_Nil_iff[of env "walks self" "mPastVisits self"]
      by (auto simp: checkForInstability_def)
  next
    case (Cons u us)
    then have "findUnstable env (walks self) (mPastVisits self) \<noteq> Inr []" using Inr by simp
    moreover have "\<exists>e. checkForInstability env self = Inl e"
      using Inr Cons
      by (cases "reportUnstable env (mPastVisits self) (walks self + length (mPastVisits self)) 0 (u # us)")
         (simp_all add: checkForInstability_def Let_def)
    ultimately show ?thesis unfolding findUnstable_Nil_iff by auto
  qed
qed

lemma checkForInstability_all_clear:
  assumes "\<forall>k<length (mPastVisits self).
        recordWalk (env (walks self + k)) (fst (mPastVisits self ! k)) = Inr (snd (mPastVisits self ! k))"
  shows "checkForInstability env self = Inr (self \<lparr> walks := walks self + length (mPastVisits self) \<rparr>)"
  using assms findUnstable_Nil_iff[of env "walks self" "mPastVisits self"]
  by (simp add: checkForInstability_def)

lemma visit_mismatch:
  assumes "map_of (mPastVisits self) obj = Some stored"
    and "recordWalk (env (walks self)) obj = Inr records"
    and "stored \<noteq> records"
  shows "visit env self obj v s =
     (case checkForInstability env (self \<lparr> walks := Suc (walks self) \<rparr>) of
        Inl e \<Rightarrow> Inl e
      | Inr self2 \<Rightarrow>
          Inl (runtime_error (''Found unstable object, but somehow our instability check''
                              @ '' didn't throw an exception?''
                              @ topoName (env (walks self2)) obj)))"
  using assms
  by (cases "checkForInstability env (self \<lparr> walks := Suc (walks self) \<rparr>)")
     (simp_all add: visit_def Let_def)

subsection \<open>The dictionary walk\<close>

lemma isSpecialIgnorableName_Inr:
  "cpp_string name \<Longrightarrow> \<exists>b. isSpecialIgnorableName name = Inr b"
  using isSpecialIgnorableName_eq[of name] by (simp add: cpp_string_def)

















subsection \<open>The claims about the record, the cache and the stability check\<close>

lemma replay_recorder: "replay recorder records acc = acc @ records"
proof (induction records arbitrary: acc)
  case Nil
  then show ?case by simp
next
  case (Cons r records)
  have "emit recorder r acc = acc @ [r]" by (cases r) (simp_all add: recorder_def)
  then show ?case using Cons by (simp add: replay_def)
qed

lemma demo_env_fields:
  "ShaHash (demo_env t) = (\<lambda>n. n)"
  "visitCompilerVisibleInternals (demo_env t) =
      (\<lambda>tp. if t = 0 then [StringRecord ''before''] else [StringRecord ''after''])"
  "topoName (demo_env t) =
      (\<lambda>t. case t of OfType (TypePtr n) \<Rightarrow> ''Type'' @ decimal n | OfPyobj p \<Rightarrow> ''object'')"
  "digestAsHexString (demo_env t) = (\<lambda>h. decimal (nat h))"
  by (simp_all add: demo_env_def demo_def)

lemma decimal_0: "decimal 0 = ''0''"
  by code_simp

lemma decimal_1: "decimal 1 = ''1''"
  by code_simp

lemma decimal_Suc_0: "decimal (Suc 0) = ''1''"
  using decimal_1 by simp

lemma demo_env_walk:
  "recordWalk (demo_env t) (OfType (TypePtr 0)) =
     Inr [HashRecord 1, StringRecord (if t = 0 then ''before'' else ''after'')]"
  by (simp add: recordWalk_def walk_def demo_env_fields recorder_def)

lemma demo_env_walk_recorder:
  "walk (demo_env t) (OfType (TypePtr 0)) recorder [] =
     Inr [HashRecord 1, StringRecord (if t = 0 then ''before'' else ''after'')]"
  using demo_env_walk[of t] by (simp add: recordWalk_def)

text \<open>
  Claim C8.  The calls that a walk makes on any visitor are, in order, those that the
  entries of the record \<open>recordWalk\<close> captures of the same node in the same state of
  the object model stand for; a walk throws exactly when \<open>recordWalk\<close> throws.  With
  the recording visitor the calls made are the record itself.  So what \<open>visit\<close> has
  streamed to its visitor when it returns is the replay of the record of the node, as
  the object model is at the time of the streaming walk.
\<close>

theorem visit_streams_the_record:
  "walk w obj visitor s =
     (case recordWalk w obj of
        Inl e \<Rightarrow> Inl e
      | Inr records \<Rightarrow> Inr (replay visitor records s))
   \<and> replay recorder records' [] = records'
   \<and> (\<forall>self' s'. visit env self obj visitor s = Inr (self', s') \<longrightarrow>
         (\<exists>records. recordWalk (env (Suc (walks self))) obj = Inr records
                     \<and> s' = replay visitor records s))"
  using walk_is_replay_of_record[of w obj visitor s] visit_stream[of env self obj visitor s]
  by (simp add: replay_recorder)

theorem visit_streams_the_record_witness:
  "visit demo_env \<lparr> mPastVisits = [], walks = 1 \<rparr> (OfType (TypePtr 0)) recorder []
     = Inr (\<lparr> mPastVisits = [(OfType (TypePtr 0), [HashRecord 1, StringRecord ''after''])],
              walks = 3 \<rparr>,
            [HashRecord 1, StringRecord ''after''])
   \<and> recordWalk (demo_env 2) (OfType (TypePtr 0)) = Inr [HashRecord 1, StringRecord ''after'']
   \<and> replay recorder [HashRecord 1, StringRecord ''after''] []
       = [HashRecord (1::int), StringRecord ''after'']"
  using visit_streams_the_record[of "demo_env 2" "OfType (TypePtr 0)" recorder "[]"
      "[HashRecord 1, StringRecord ''after'']" demo_env
      "\<lparr> mPastVisits = [], walks = 1 \<rparr>"]
  by (simp add: visit_def demo_env_walk demo_env_walk_recorder Let_def replay_recorder
        numeral_2_eq_2 numeral_3_eq_3)

text \<open>
  Claim C2.  When the node is in the walk cache and the record just computed differs from
  the stored one, \<open>visit\<close> runs \<open>checkForInstability\<close> and throws: the exception of
  the check when the check throws, and its own \<open>runtime_error\<close> when the check
  returns because it has found no unstable node.  It never returns normally.
\<close>

theorem visit_raises_on_mismatch:
  assumes "map_of (mPastVisits self) obj = Some stored"
    and "recordWalk (env (walks self)) obj = Inr records"
    and "stored \<noteq> records"
  shows "visit env self obj visitor s =
     (case checkForInstability env (self \<lparr> walks := Suc (walks self) \<rparr>) of
        Inl e \<Rightarrow> Inl e
      | Inr self2 \<Rightarrow>
          Inl (runtime_error (''Found unstable object, but somehow our instability check''
                              @ '' didn't throw an exception?''
                              @ topoName (env (walks self2)) obj)))
    \<and> (\<exists>e. visit env self obj visitor s = Inl e)"
  using assms visit_mismatch[of self obj stored env records visitor s]
  by (cases "checkForInstability env (self \<lparr> walks := Suc (walks self) \<rparr>)") simp_all

lemma demo_check_clear:
  "checkForInstability demo_env
      \<lparr> mPastVisits = [(OfType (TypePtr 0), [HashRecord 1, StringRecord ''after''])], walks = Suc 0 \<rparr>
    = Inr \<lparr> mPastVisits = [(OfType (TypePtr 0), [HashRecord 1, StringRecord ''after''])], walks = 2 \<rparr>"
  by (simp add: checkForInstability_def demo_env_walk)

lemma demo_check_unstable:
  "checkForInstability demo_env
      \<lparr> mPastVisits = [(OfType (TypePtr 0), [HashRecord 1, StringRecord ''stale''])], walks = Suc 0 \<rparr>
    = Inl (runtime_error
        (''Found 1 unstable objects'' @ newline @ ''0 -> Type0'' @ newline
         @ diffLines [''Hash(1)'', ''String(after)''] [''Hash(1)'', ''String(stale)'']))"
  by (simp add: checkForInstability_def demo_env_walk demo_env_fields decimal_0 decimal_1 decimal_Suc_0
      stringifyVisitRecord_def toString_def pastVisit_def)

theorem visit_raises_on_mismatch_witness:
  "visit demo_env
      \<lparr> mPastVisits = [(OfType (TypePtr 0), [HashRecord 1, StringRecord ''after''])], walks = 0 \<rparr>
      (OfType (TypePtr 0)) recorder []
    = Inl (runtime_error (''Found unstable object, but somehow our instability check''
                          @ '' didn't throw an exception?'' @ ''Type0''))
   \<and> visit demo_env
      \<lparr> mPastVisits = [(OfType (TypePtr 0), [HashRecord 1, StringRecord ''stale''])], walks = 0 \<rparr>
      (OfType (TypePtr 0)) recorder []
    = Inl (runtime_error
        (''Found 1 unstable objects'' @ newline @ ''0 -> Type0'' @ newline
         @ diffLines [''Hash(1)'', ''String(after)''] [''Hash(1)'', ''String(stale)'']))"
  using
    visit_raises_on_mismatch[of
      "\<lparr> mPastVisits = [(OfType (TypePtr 0), [HashRecord 1, StringRecord ''after''])], walks = 0 \<rparr>"
      "OfType (TypePtr 0)" "[HashRecord 1, StringRecord ''after'']" demo_env
      "[HashRecord 1, StringRecord ''before'']" recorder "[]"]
    visit_raises_on_mismatch[of
      "\<lparr> mPastVisits = [(OfType (TypePtr 0), [HashRecord 1, StringRecord ''stale''])], walks = 0 \<rparr>"
      "OfType (TypePtr 0)" "[HashRecord 1, StringRecord ''stale'']" demo_env
      "[HashRecord 1, StringRecord ''before'']" recorder "[]"]
  by (simp add: demo_env_walk demo_check_clear demo_check_unstable demo_env_fields decimal_0 decimal_1 decimal_Suc_0)

text \<open>
  Claim C3.  \<open>checkForInstability\<close> throws if and only if the walk of some node of the
  cache, made again, does not return the stored record (an exception of that walk
  propagates, so it counts as a change); when every node of the cache walks to its stored
  record, it returns normally, having made one walk for each entry.
\<close>

theorem checkForInstability_raises_iff_unstable:
  "((\<exists>e. checkForInstability env self = Inl e) \<longleftrightarrow>
      (\<exists>k<length (mPastVisits self).
         recordWalk (env (walks self + k)) (fst (mPastVisits self ! k))
           \<noteq> Inr (snd (mPastVisits self ! k))))
   \<and> ((\<forall>k<length (mPastVisits self).
         recordWalk (env (walks self + k)) (fst (mPastVisits self ! k))
           = Inr (snd (mPastVisits self ! k)))
        \<longrightarrow> checkForInstability env self
              = Inr (self \<lparr> walks := walks self + length (mPastVisits self) \<rparr>))"
  using checkForInstability_raises_iff[of env self] checkForInstability_all_clear[of self env]
  by blast

theorem checkForInstability_raises_iff_unstable_witness:
  "checkForInstability demo_env
      \<lparr> mPastVisits = [(OfType (TypePtr 0), [HashRecord 1, StringRecord ''after''])], walks = 1 \<rparr>
    = Inr \<lparr> mPastVisits = [(OfType (TypePtr 0), [HashRecord 1, StringRecord ''after''])], walks = 2 \<rparr>
   \<and> (\<exists>e. checkForInstability demo_env
      \<lparr> mPastVisits = [(OfType (TypePtr 0), [HashRecord 1, StringRecord ''after''])], walks = 0 \<rparr>
    = Inl e)"
  using
    checkForInstability_raises_iff_unstable[of demo_env
      "\<lparr> mPastVisits = [(OfType (TypePtr 0), [HashRecord 1, StringRecord ''after''])], walks = 1 \<rparr>"]
    checkForInstability_raises_iff_unstable[of demo_env
      "\<lparr> mPastVisits = [(OfType (TypePtr 0), [HashRecord 1, StringRecord ''after''])], walks = 0 \<rparr>"]
  by (simp add: demo_env_walk)

subsection \<open>The claim about the dictionary walk\<close>





lemmas demo_defs = demo_heap_def demo_object_def text_object_def plain_object_def
  demo_code_def demo_function_def demo_function_g_def

lemma demo_fields:
  "heap demo = demo_heap"
  "sys_modules demo = [''posixpath'' \<mapsto> Obj 3, ''__main__'' \<mapsto> Obj 17]"
  "builtinsModule demo = Obj 60"
  "builtinsModuleDict demo = Obj 61"
  "environType demo = Obj 62"
  "weakSetType demo = Obj 63"
  "weakKeyDictType demo = Obj 64"
  "weakValueDictType demo = Obj 65"
  "PY_MINOR_VERSION demo = 10"
  "extractTypeFrom demo = (\<lambda>p. if p = Obj 6 then Some (TypePtr 7) else None)"
  "visitCompilerVisibleInternals demo = (\<lambda>t. [StringRecord ''ListOf''])"
  "visitCompilerVisibleGlobals demo =
         (\<lambda>code globals.
            if code = Obj 10 \<and> globals = Obj 30
            then [(''join'', Obj 4), (''__file__'', Obj 15), (''f'', Obj 24)]
            else [])"
  "ShaHash demo = (\<lambda>n. n)"
  "SHA1 demo = (\<lambda>s. 1000 + int (length s))"
  by (simp_all add: demo_def)







subsection \<open>The claims about the dispatch rules\<close>

lemma walk_reaches_structural:
  assumes "reachesStructuralRules w h"
  shows "walk w (OfPyobj h) visitor s = walkStructural w visitor h s"
  using assms by (simp add: reachesStructuralRules_def walk_def)

lemma recordWalk_structural:
  assumes "reachesStructuralRules w h"
  shows "recordWalk w (OfPyobj h) = walkStructural w recorder h []"
  using walk_reaches_structural[OF assms] by (simp add: recordWalk_def)

lemma fold_recorder_topo:
  "fold (\<lambda>item. visitTopo recorder (F item)) xs acc = acc @ map (\<lambda>item. TopoRecord (F item)) xs"
  by (induction xs arbitrary: acc) (simp_all add: recorder_def)

lemma tuple_record:
  "visitTuple w recorder t acc =
     acc @ (case t of
              None \<Rightarrow> [HashRecord (ShaHash w 0)]
            | Some tp \<Rightarrow> HashRecord (ShaHash w (PyTuple_Size w tp))
                         # map (\<lambda>item. TopoRecord (OfPyobj item)) (tupleItems w tp))"
  by (cases t) (simp_all add: visitTuple_def fold_recorder_topo, simp_all add: recorder_def)

lemma tuple_record_append:
  "visitTuple w recorder t acc = acc @ visitTuple w recorder t []"
  using tuple_record[of w t acc] tuple_record[of w t "[]"] by simp

lemma code_record:
  "walkCode w recorder co [] =
     [HashRecord (ShaHash w 4),
      HashRecord (ShaHash w (co_argcount co)),
      HashRecord (ShaHash w (co_kwonlyargcount co)),
      HashRecord (ShaHash w (co_nlocals co)),
      HashRecord (ShaHash w (co_stacksize co)),
      HashRecord (ShaHash w (co_firstlineno co)),
      HashRecord (SHA1 w (co_code co))]
     @ visitTuple w recorder (co_consts co) []
     @ visitTuple w recorder (co_names co) []
     @ visitTuple w recorder (co_varnames co) []
     @ visitTuple w recorder (co_freevars co) []
     @ visitTuple w recorder (co_cellvars co) []
     @ [TopoRecord (OfPyobj (co_name co)),
        TopoRecord (OfPyobj (if PY_MINOR_VERSION w \<ge> 10 then co_linetable co else co_lnotab co))]"
proof -
  have "walkCode w recorder co [] =
      (visitTuple w recorder (co_cellvars co)
        (visitTuple w recorder (co_freevars co)
          (visitTuple w recorder (co_varnames co)
            (visitTuple w recorder (co_names co)
              (visitTuple w recorder (co_consts co)
     [HashRecord (ShaHash w 4),
      HashRecord (ShaHash w (co_argcount co)),
      HashRecord (ShaHash w (co_kwonlyargcount co)),
      HashRecord (ShaHash w (co_nlocals co)),
      HashRecord (ShaHash w (co_stacksize co)),
      HashRecord (ShaHash w (co_firstlineno co)),
      HashRecord (SHA1 w (co_code co))])))))
     @ [TopoRecord (OfPyobj (co_name co)),
        TopoRecord (OfPyobj (if PY_MINOR_VERSION w \<ge> 10 then co_linetable co else co_lnotab co))]"
    by (simp add: walkCode_def run_def recorder_def)
  then show ?thesis
    by (simp add: tuple_record_append[of w _ "_ @ _"] tuple_record_append[of w _ "_ # _"])
qed


lemma replaceCode_fields:
  "ob_type (heap (replaceCode w h co') p) = ob_type (heap w p)"
  "attrs (heap (replaceCode w h co') p) = attrs (heap w p)"
  "sys_modules (replaceCode w h co') = sys_modules w"
  "builtinsModule (replaceCode w h co') = builtinsModule w"
  "builtinsModuleDict (replaceCode w h co') = builtinsModuleDict w"
  "environType (replaceCode w h co') = environType w"
  "PY_MINOR_VERSION (replaceCode w h co') = PY_MINOR_VERSION w"
  "extractTypeFrom (replaceCode w h co') = extractTypeFrom w"
  "ShaHash (replaceCode w h co') = ShaHash w"
  "SHA1 (replaceCode w h co') = SHA1 w"
  by (simp_all add: replaceCode_def)

lemma replaceCode_body:
  "body (heap (replaceCode w h co') p) = (if p = h then CodeBody co' else body (heap w p))"
  by (simp add: replaceCode_def)

lemma replaceCode_checks:
  assumes "body (heap w h) = CodeBody co"
  shows "PyUnicode_AsUTF8 (replaceCode w h co') p = PyUnicode_AsUTF8 w p"
    and "PyUnicode_Check (replaceCode w h co') p = PyUnicode_Check w p"
    and "PyLong_Check (replaceCode w h co') p = PyLong_Check w p"
    and "PyBytes_Check (replaceCode w h co') p = PyBytes_Check w p"
    and "PyFloat_Check (replaceCode w h co') p = PyFloat_Check w p"
    and "PyModule_Check (replaceCode w h co') p = PyModule_Check w p"
    and "PyTuple_Size (replaceCode w h co') p = PyTuple_Size w p"
    and "tupleItems (replaceCode w h co') p = tupleItems w p"
  using assms
  by (simp_all add: PyUnicode_AsUTF8_def PyUnicode_Check_def PyLong_Check_def PyBytes_Check_def
        PyFloat_Check_def PyModule_Check_def PyTuple_Size_def tupleItems_def replaceCode_body)

lemma replaceCode_api:
  assumes "body (heap w h) = CodeBody co"
  shows "PyObject_GetAttrString (replaceCode w h co') p n = PyObject_GetAttrString w p n"
    and "PyObject_HasAttrString (replaceCode w h co') p n = PyObject_HasAttrString w p n"
    and "PyObject_GetAttr (replaceCode w h co') p q = PyObject_GetAttr w p q"
    and "sysModuleModules_GetItem (replaceCode w h co') p = sysModuleModules_GetItem w p"
    and "attrAsString (replaceCode w h co') p n = attrAsString w p n"
  by (simp_all add: PyObject_GetAttrString_def PyObject_HasAttrString_def PyObject_GetAttr_def
        sysModuleModules_GetItem_def attrAsString_def replaceCode_fields
        replaceCode_checks[OF assms] cong: option.case_cong)

lemma replaceCode_isSimpleConstant:
  assumes "body (heap w h) = CodeBody co"
  shows "isSimpleConstant (replaceCode w h co') p = isSimpleConstant w p"
  by (simp add: isSimpleConstant_def replaceCode_fields replaceCode_checks[OF assms])

lemma replaceCode_identifiable:
  assumes "body (heap w h) = CodeBody co"
  shows "isPyObjectGloballyIdentifiable (replaceCode w h co') p e = isPyObjectGloballyIdentifiable w p e"
  by (simp add: isPyObjectGloballyIdentifiable_def replaceCode_api[OF assms]
        replaceCode_checks[OF assms] cong: option.case_cong if_cong)

lemma replaceCode_stable:
  assumes "body (heap w h) = CodeBody co"
  shows "isPyObjectGloballyIdentifiableAndStable (replaceCode w h co') p
       = isPyObjectGloballyIdentifiableAndStable w p"
  by (simp add: isPyObjectGloballyIdentifiableAndStable_def replaceCode_identifiable[OF assms]
        replaceCode_api[OF assms] replaceCode_fields cong: if_cong)

lemma replaceCode_canonicalModule:
  assumes "body (heap w h) = CodeBody co"
  shows "canonicalModule (replaceCode w h co') p = canonicalModule w p"
  by (simp add: canonicalModule_def replaceCode_api[OF assms] replaceCode_checks[OF assms]
        cong: option.case_cong if_cong)

lemma replaceCode_reaches:
  assumes "body (heap w h) = CodeBody co"
  shows "reachesStructuralRules (replaceCode w h co') p = reachesStructuralRules w p"
  by (simp add: reachesStructuralRules_def replaceCode_fields
        replaceCode_isSimpleConstant[OF assms] replaceCode_canonicalModule[OF assms]
        replaceCode_stable[OF assms])

lemma replaceCode_visitTuple:
  assumes "body (heap w h) = CodeBody co"
  shows "visitTuple (replaceCode w h co') visitor t s = visitTuple w visitor t s"
  by (cases t) (simp_all add: visitTuple_def replaceCode_fields replaceCode_checks[OF assms])

lemma code_node_record:
  assumes "body (heap w h) = CodeBody co" and "reachesStructuralRules w h"
  shows "recordWalk w (OfPyobj h) = Inr (walkCode w recorder co [])"
proof -
  have "\<not> PyType_Check w h" using assms(1) by (simp add: PyType_Check_def)
  then show ?thesis
    using assms by (simp add: recordWalk_structural walkStructural_def)
qed

text \<open>
  Claim C5.  The record of a code object that reaches the structural rules is: the
  discriminant 4; the argument count, the keyword-only argument count, the number of
  local slots, the stack size, the first line number and the digest of the instruction
  bytes; the walks, as ordered sequences, of the constants, the names, the variable names,
  the free variables and the cell variables (the size, then a reference to each item, or
  a zero for a table that is absent); a reference to the name and one to the line-number
  table.  The flags and the file name are no part of it: a code object that differs in
  them only has the same record.
\<close>

theorem code_object_record:
  assumes "body (heap w h) = CodeBody co" and "reachesStructuralRules w h"
  shows "recordWalk w (OfPyobj h) =
     Inr ([HashRecord (ShaHash w 4),
           HashRecord (ShaHash w (co_argcount co)),
           HashRecord (ShaHash w (co_kwonlyargcount co)),
           HashRecord (ShaHash w (co_nlocals co)),
           HashRecord (ShaHash w (co_stacksize co)),
           HashRecord (ShaHash w (co_firstlineno co)),
           HashRecord (SHA1 w (co_code co))]
          @ visitTuple w recorder (co_consts co) []
          @ visitTuple w recorder (co_names co) []
          @ visitTuple w recorder (co_varnames co) []
          @ visitTuple w recorder (co_freevars co) []
          @ visitTuple w recorder (co_cellvars co) []
          @ [TopoRecord (OfPyobj (co_name co)),
             TopoRecord (OfPyobj (if PY_MINOR_VERSION w \<ge> 10
                                  then co_linetable co else co_lnotab co))])
    \<and> visitTuple w recorder t [] =
        (case t of
           None \<Rightarrow> [HashRecord (ShaHash w 0)]
         | Some tp \<Rightarrow> HashRecord (ShaHash w (PyTuple_Size w tp))
                      # map (\<lambda>item. TopoRecord (OfPyobj item)) (tupleItems w tp))
    \<and> recordWalk (replaceCode w h (co \<lparr> co_flags := flags, co_filename := filename \<rparr>))
          (OfPyobj h)
        = recordWalk w (OfPyobj h)"
proof -
  let ?co' = "co \<lparr> co_flags := flags, co_filename := filename \<rparr>"
  let ?w' = "replaceCode w h ?co'"
  have b': "body (heap ?w' h) = CodeBody ?co'" by (simp add: replaceCode_body)
  have r': "reachesStructuralRules ?w' h"
    using assms(2) replaceCode_reaches[OF assms(1)] by simp
  have "walkCode ?w' recorder ?co' [] = walkCode w recorder co []"
    by (simp add: code_record replaceCode_fields replaceCode_visitTuple[OF assms(1)])
  then have "recordWalk ?w' (OfPyobj h) = recordWalk w (OfPyobj h)"
    using code_node_record[OF b' r'] code_node_record[OF assms] by simp
  then show ?thesis
    using code_node_record[OF assms] code_record[of w co] tuple_record[of w t "[]"]
    by simp
qed

lemma collectNames_False:
  "\<exists>names. collectNames w False keys acc = Inr names"
proof (induction keys arbitrary: acc)
  case Nil
  then show ?case by simp
next
  case (Cons k keys)
  then show ?case by (cases "PyUnicode_AsUTF8 w k") simp_all
qed

lemma visitDict_False_total:
  "\<exists>r. visitDict w recorder d False [] = Inr r"
proof (cases d)
  case None
  then show ?thesis by (simp add: visitDict_def)
next
  case (Some dp)
  show ?thesis
  proof (cases "body (heap w dp)")
    case (DictBody kvs)
    obtain names where "collectNames w False (map fst kvs) [] = Inr names"
      using collectNames_False by blast
    then show ?thesis using Some DictBody
      by (simp add: visitDict_def PyDict_Check_def iterate_def)
  qed (use Some in \<open>simp_all add: visitDict_def PyDict_Check_def\<close>)
qed

lemma visitDictOrTuple_total:
  "\<exists>r. visitDictOrTuple w recorder t [] = Inr r"
proof (cases t)
  case None
  then show ?thesis by (simp add: visitDictOrTuple_def)
next
  case (Some tp)
  then show ?thesis using visitDict_False_total[of w "Some tp"]
    by (auto simp: visitDictOrTuple_def)
qed

lemma visitDictOrTuple_append:
  "visitDictOrTuple w recorder t [] = Inr r \<Longrightarrow> visitDictOrTuple w recorder t acc = Inr (acc @ r)"
  using sim_visitDictOrTuple[of w recorder t "[]" acc] by (simp add: replay_recorder)

lemma visitGlobals_record:
  assumes "list_all (\<lambda>p. cpp_string (fst p)) gs"
  shows "visitGlobals recorder gs acc =
     Inr (acc @ map (\<lambda>p. NameValuePairRecord (fst p) (OfPyobj (snd p)))
                  (filter (\<lambda>p. isSpecialIgnorableName (fst p) = Inr False) gs))"
  using assms
proof (induction gs arbitrary: acc)
  case Nil
  then show ?case by simp
next
  case (Cons g gs)
  obtain name val where g: "g = (name, val)" by (cases g)
  have "cpp_string name" using Cons.prems g by simp
  then obtain b where b: "isSpecialIgnorableName name = Inr b"
    using isSpecialIgnorableName_Inr by blast
  have rest: "list_all (\<lambda>p. cpp_string (fst p)) gs" using Cons.prems by simp
  show ?case unfolding g using b Cons.IH[OF rest]
    by (cases b) (simp_all add: recorder_def)
qed

lemma fold_recorder_cells:
  "fold (\<lambda>item. if P item then visitTopo recorder (F item) else (\<lambda>s. s)) xs acc
   = acc @ map (\<lambda>item. TopoRecord (F item)) (filter P xs)"
  by (induction xs arbitrary: acc) (simp_all add: recorder_def)

lemma function_record:
  assumes ann: "visitDictOrTuple w recorder (func_annotations f) [] = Inr ann"
    and kw: "visitDictOrTuple w recorder (func_kwdefaults f) [] = Inr kw"
    and gl: "\<And>g. func_globals f = Some g \<Longrightarrow>
               list_all (\<lambda>p. cpp_string (fst p)) (visitCompilerVisibleGlobals w (func_code f) g)"
  shows "walkFunction w recorder f [] =
     Inr (HashRecord (ShaHash w 5)
          # (case func_closure f of
               Some closure \<Rightarrow>
                 HashRecord (ShaHash w (PyTuple_Size w closure))
                 # map (\<lambda>item. TopoRecord (OfPyobj item))
                     (filter (PyCell_Check w) (tupleItems w closure))
             | None \<Rightarrow> [HashRecord (ShaHash w 0)])
          @ [TopoRecord (OfPyobj (func_name f)), TopoRecord (OfPyobj (func_code f))]
          @ ann
          @ visitTuple w recorder (func_defaults f) []
          @ kw
          @ HashRecord (ShaHash w 1)
          # (case func_globals f of
               None \<Rightarrow> []
             | Some globals \<Rightarrow>
                 if PyDict_Check w globals
                 then map (\<lambda>p. NameValuePairRecord (fst p) (OfPyobj (snd p)))
                        (filter (\<lambda>p. isSpecialIgnorableName (fst p) = Inr False)
                           (visitCompilerVisibleGlobals w (func_code f) globals))
                 else [])
          @ [HashRecord (ShaHash w 0)])"
proof -
  let ?s2 = "HashRecord (ShaHash w 5)
          # (case func_closure f of
               Some closure \<Rightarrow>
                 HashRecord (ShaHash w (PyTuple_Size w closure))
                 # map (\<lambda>item. TopoRecord (OfPyobj item))
                     (filter (PyCell_Check w) (tupleItems w closure))
             | None \<Rightarrow> [HashRecord (ShaHash w 0)])"
  let ?s4 = "?s2 @ [TopoRecord (OfPyobj (func_name f)), TopoRecord (OfPyobj (func_code f))]"
  have s2: "(case func_closure f of
                  Some closure \<Rightarrow>
                    fold (\<lambda>item. if PyCell_Check w item
                                   then visitTopo recorder (OfPyobj item) else (\<lambda>s. s))
                      (tupleItems w closure)
                      (visitHash recorder (ShaHash w (PyTuple_Size w closure))
                         (visitHash recorder (ShaHash w 5) []))
                | None \<Rightarrow> visitHash recorder (ShaHash w 0) (visitHash recorder (ShaHash w 5) []))
       = ?s2"
    by (cases "func_closure f") (simp_all add: fold_recorder_cells, simp_all add: recorder_def)
  have s4: "visitTopo recorder (OfPyobj (func_code f))
              (visitTopo recorder (OfPyobj (func_name f)) ?s2) = ?s4"
    by (simp add: recorder_def)
  have s5: "visitDictOrTuple w recorder (func_annotations f) ?s4 = Inr (?s4 @ ann)"
    using ann by (rule visitDictOrTuple_append)
  let ?s6 = "(?s4 @ ann) @ visitTuple w recorder (func_defaults f) []"
  have s6: "visitTuple w recorder (func_defaults f) (?s4 @ ann) = ?s6"
    by (rule tuple_record_append)
  have s7: "visitDictOrTuple w recorder (func_kwdefaults f) ?s6 = Inr (?s6 @ kw)"
    using kw by (rule visitDictOrTuple_append)
  let ?s8 = "(?s6 @ kw) @ [HashRecord (ShaHash w 1)]"
  have s8: "visitHash recorder (ShaHash w 1) (?s6 @ kw) = ?s8"
    by (simp add: recorder_def)
  let ?g = "case func_globals f of
               None \<Rightarrow> []
             | Some globals \<Rightarrow>
                 if PyDict_Check w globals
                 then map (\<lambda>p. NameValuePairRecord (fst p) (OfPyobj (snd p)))
                        (filter (\<lambda>p. isSpecialIgnorableName (fst p) = Inr False)
                           (visitCompilerVisibleGlobals w (func_code f) globals))
                 else []"
  have s9: "(case func_globals f of
                 None \<Rightarrow> Inr ?s8
               | Some globals \<Rightarrow>
                   if PyDict_Check w globals
                   then visitGlobals recorder
                          (visitCompilerVisibleGlobals w (func_code f) globals) ?s8
                   else Inr ?s8) = Inr (?s8 @ ?g)"
  proof (cases "func_globals f")
    case None
    then show ?thesis by simp
  next
    case (Some g)
    show ?thesis using Some visitGlobals_record[OF gl[OF Some], of ?s8]
      by (cases "PyDict_Check w g") simp_all
  qed
  have "walkFunction w recorder f [] = Inr (visitHash recorder (ShaHash w 0) (?s8 @ ?g))"
    unfolding walkFunction_def Let_def s2 s4 s5 bindE_Inr s6 s7 s8 s9 ..
  then show ?thesis by (simp add: recorder_def)
qed

lemmas api_defs = PyLong_Check_def PyFloat_Check_def PyBytes_Check_def PyUnicode_Check_def
  PyModule_Check_def PyType_Check_def PyCode_Check_def PyFunction_Check_def PyTuple_Check_def
  PyDict_Check_def PySet_Check_def PyList_Check_def PyCell_Check_def PyUnicode_AsUTF8_def
  PyObject_GetAttrString_def PyObject_GetAttr_def PyObject_HasAttrString_def
  sysModuleModules_GetItem_def PyTuple_Size_def tupleItems_def PyDict_GetItem_def
  PyCell_Get_def iterate_def

lemma demo_canonical:
  "isCanonicalName ''posixpath'' = Inr True"
  "isCanonicalName ''__main__'' = Inr False"
  by (simp_all add: isCanonicalName_no_dot canonicalPythonModuleNames_def)

lemma demo_identifiable:
  "isPyObjectGloballyIdentifiable demo (Obj 4) False = (True, False)"
  "isPyObjectGloballyIdentifiable demo (Obj 10) False = (False, False)"
  "isPyObjectGloballyIdentifiable demo (Obj 20) False = (False, False)"
  "isPyObjectGloballyIdentifiable demo (Obj 50) False = (False, False)"
  by (simp_all add: isPyObjectGloballyIdentifiable_def PyErr_Clear_def demo_fields demo_defs api_defs)

lemma demo_stable:
  "isPyObjectGloballyIdentifiableAndStable demo (Obj 4) = Inr True"
  "isPyObjectGloballyIdentifiableAndStable demo (Obj 10) = Inr False"
  "isPyObjectGloballyIdentifiableAndStable demo (Obj 20) = Inr False"
  "isPyObjectGloballyIdentifiableAndStable demo (Obj 50) = Inr False"
  by (simp_all add: isPyObjectGloballyIdentifiableAndStable_def demo_identifiable attrAsString_def
        demo_canonical demo_fields demo_defs api_defs)

lemma demo_reaches:
  "reachesStructuralRules demo (Obj 10)"
  "reachesStructuralRules demo (Obj 20)"
  "reachesStructuralRules demo (Obj 50)"
  by (simp_all add: reachesStructuralRules_def isSimpleConstant_def canonicalModule_def
        demo_stable demo_fields demo_defs api_defs)

lemma demo_bodies:
  "body (heap demo (Obj 10)) = CodeBody demo_code"
  "body (heap demo (Obj 20)) = FunctionBody demo_function"
  "body (heap demo (Obj 50)) = FunctionBody demo_function_g"
  "body (heap demo (Obj 21)) = TupleBody [Obj 23, Obj 1]"
  "body (heap demo (Obj 32)) = DictBody [(Obj 41, Py_True), (Obj 40, Py_None)]"
  by (simp_all add: demo_fields demo_defs)

theorem code_object_record_witness:
  "recordWalk demo (OfPyobj (Obj 10)) = Inr
     [HashRecord 4, HashRecord 1, HashRecord 1, HashRecord 2, HashRecord 3, HashRecord 10,
      HashRecord 1002,
      HashRecord 2, TopoRecord (OfPyobj Py_None), TopoRecord (OfPyobj (Obj 1)),
      HashRecord 0,
      HashRecord 2, TopoRecord (OfPyobj (Obj 40)), TopoRecord (OfPyobj (Obj 41)),
      HashRecord 0,
      HashRecord 0,
      TopoRecord (OfPyobj (Obj 14)), TopoRecord (OfPyobj (Obj 13))]
   \<and> recordWalk (replaceCode demo (Obj 10) (demo_code \<lparr> co_flags := 0, co_filename := Obj 1 \<rparr>))
        (OfPyobj (Obj 10))
      = recordWalk demo (OfPyobj (Obj 10))"
  using code_object_record[OF demo_bodies(1) demo_reaches(1),
      where t = None and flags = 0 and filename = "Obj 1"]
  by (simp add: visitTuple_def recorder_def demo_fields demo_defs api_defs)

lemma function_node_record:
  assumes "body (heap w h) = FunctionBody f" and "reachesStructuralRules w h"
  shows "recordWalk w (OfPyobj h) = walkFunction w recorder f []"
proof -
  have "\<not> PyType_Check w h" using assms(1) by (simp add: PyType_Check_def)
  then show ?thesis
    using assms by (simp add: recordWalk_structural walkStructural_def)
qed

text \<open>
  Claim C9.  The record of a function whose closure is a tuple starts with the
  discriminant 5 and the length of the whole tuple, followed by one reference for each
  item of the tuple that is a cell and by nothing for any other item, and goes on with
  the references to the name and the code of the function.
\<close>

theorem closure_cells_only:
  assumes "body (heap w h) = FunctionBody f" and "reachesStructuralRules w h"
    and "func_closure f = Some closure" and "body (heap w closure) = TupleBody items"
    and "list_all (\<lambda>p. cpp_string (fst p))
           (case func_globals f of None \<Rightarrow> []
            | Some g \<Rightarrow> visitCompilerVisibleGlobals w (func_code f) g)"
  shows "\<exists>rest. recordWalk w (OfPyobj h) =
     Inr ([HashRecord (ShaHash w 5), HashRecord (ShaHash w (int (length items)))]
          @ map (\<lambda>item. TopoRecord (OfPyobj item)) (filter (PyCell_Check w) items)
          @ [TopoRecord (OfPyobj (func_name f)), TopoRecord (OfPyobj (func_code f))]
          @ rest)"
proof -
  obtain ann where ann: "visitDictOrTuple w recorder (func_annotations f) [] = Inr ann"
    using visitDictOrTuple_total by blast
  obtain kw where kw: "visitDictOrTuple w recorder (func_kwdefaults f) [] = Inr kw"
    using visitDictOrTuple_total by blast
  have gl: "\<And>g. func_globals f = Some g \<Longrightarrow>
               list_all (\<lambda>p. cpp_string (fst p)) (visitCompilerVisibleGlobals w (func_code f) g)"
    using assms(5) by simp
  have sz: "PyTuple_Size w closure = int (length items)" and it: "tupleItems w closure = items"
    using assms(4) by (simp_all add: PyTuple_Size_def tupleItems_def)
  note fr = function_record[OF ann kw gl]
  have "recordWalk w (OfPyobj h) =
     Inr ([HashRecord (ShaHash w 5), HashRecord (ShaHash w (int (length items)))]
          @ map (\<lambda>item. TopoRecord (OfPyobj item)) (filter (PyCell_Check w) items)
          @ [TopoRecord (OfPyobj (func_name f)), TopoRecord (OfPyobj (func_code f))]
          @ (ann @ visitTuple w recorder (func_defaults f) [] @ kw
             @ HashRecord (ShaHash w 1)
          # (case func_globals f of
               None \<Rightarrow> []
             | Some globals \<Rightarrow>
                 if PyDict_Check w globals
                 then map (\<lambda>p. NameValuePairRecord (fst p) (OfPyobj (snd p)))
                        (filter (\<lambda>p. isSpecialIgnorableName (fst p) = Inr False)
                           (visitCompilerVisibleGlobals w (func_code f) globals))
                 else [])
          @ [HashRecord (ShaHash w 0)]))"
    using fr function_node_record[OF assms(1,2)] assms(3) sz it by simp
  then show ?thesis by blast
qed



lemma demo_globals_names:
  "list_all (\<lambda>p. cpp_string (fst p))
           (case func_globals demo_function of None \<Rightarrow> []
            | Some g \<Rightarrow> visitCompilerVisibleGlobals demo (func_code demo_function) g)"
  by (simp add: demo_function_def demo_fields cpp_string_def)

theorem closure_cells_only_witness:
  "(\<exists>rest. recordWalk demo (OfPyobj (Obj 20)) =
     Inr ([HashRecord 5, HashRecord 2, TopoRecord (OfPyobj (Obj 23)),
           TopoRecord (OfPyobj (Obj 14)), TopoRecord (OfPyobj (Obj 10))] @ rest))
   \<and> PyCell_Check demo (Obj 23) \<and> \<not> PyCell_Check demo (Obj 1)
   \<and> body (heap demo (Obj 21)) = TupleBody [Obj 23, Obj 1]"
  using closure_cells_only[OF demo_bodies(2) demo_reaches(2) _ demo_bodies(4) demo_globals_names]
  by (simp add: demo_function_def PyCell_Check_def demo_fields demo_defs)




lemma identifiable_iff:
  "fst (isPyObjectGloballyIdentifiable w h err) \<longleftrightarrow>
     (\<exists>m c mo. PyObject_GetAttrString w h ''__module__'' = Some m
        \<and> PyObject_GetAttrString w h ''__name__'' = Some c
        \<and> PyUnicode_Check w m \<and> PyUnicode_Check w c
        \<and> sysModuleModules_GetItem w m = Some mo
        \<and> PyObject_GetAttr w mo c = Some h)"
  by (auto simp: isPyObjectGloballyIdentifiable_def PyObject_HasAttrString_def
      split: option.splits)

lemma identifiable_no_error:
  "snd (isPyObjectGloballyIdentifiable w h False) = False"
  by (auto simp: isPyObjectGloballyIdentifiable_def PyErr_Clear_def split: option.splits)

text \<open>
  Claim C7.  When the round trip fails (the node has no \<open>__module__\<close> or no
  \<open>__name__\<close>, one of them is no text, the registry has no module of that name, the
  module has no attribute of that name, or the attribute is another object),
  \<open>isPyObjectGloballyIdentifiable\<close> answers false and leaves no exception set in the
  interpreter, the node is not globally identifiable and stable, and a walk that comes to
  this check goes on with the structural rules.
\<close>

theorem round_trip_failure_is_swallowed:
  assumes "PyObject_GetAttrString w h ''__module__'' = None
     \<or> PyObject_GetAttrString w h ''__name__'' = None
     \<or> (\<exists>m c. PyObject_GetAttrString w h ''__module__'' = Some m
            \<and> PyObject_GetAttrString w h ''__name__'' = Some c
            \<and> (\<not> PyUnicode_Check w m
               \<or> \<not> PyUnicode_Check w c
               \<or> sysModuleModules_GetItem w m = None
               \<or> (\<exists>mo. sysModuleModules_GetItem w m = Some mo
                     \<and> (PyObject_GetAttr w mo c = None
                        \<or> (\<exists>x. PyObject_GetAttr w mo c = Some x \<and> x \<noteq> h)))))"
  shows "isPyObjectGloballyIdentifiable w h False = (False, False)
    \<and> isPyObjectGloballyIdentifiableAndStable w h = Inr False
    \<and> (ob_type (heap w h) \<noteq> environType w \<and> \<not> isSimpleConstant w h
        \<and> extractTypeFrom w (ob_type (heap w h)) = None \<and> canonicalModule w h = Inr None
        \<longrightarrow> walk w (OfPyobj h) visitor s = walkStructural w visitor h s)"
proof -
  have "\<not> fst (isPyObjectGloballyIdentifiable w h False)"
    unfolding identifiable_iff using assms by auto
  then have a: "isPyObjectGloballyIdentifiable w h False = (False, False)"
    using identifiable_no_error[of w h] by (simp add: prod_eq_iff)
  then have b: "isPyObjectGloballyIdentifiableAndStable w h = Inr False"
    by (simp add: isPyObjectGloballyIdentifiableAndStable_def)
  have c: "ob_type (heap w h) \<noteq> environType w \<and> \<not> isSimpleConstant w h
        \<and> extractTypeFrom w (ob_type (heap w h)) = None \<and> canonicalModule w h = Inr None
        \<longrightarrow> walk w (OfPyobj h) visitor s = walkStructural w visitor h s"
    using b walk_reaches_structural[of w h visitor s]
    by (simp add: reachesStructuralRules_def)
  show ?thesis using a b c by blast
qed

theorem round_trip_failure_is_swallowed_witness:
  "isPyObjectGloballyIdentifiable demo (Obj 20) False = (False, False)
   \<and> PyObject_GetAttrString demo (Obj 20) ''__module__'' = Some (Obj 16)
   \<and> PyObject_GetAttrString demo (Obj 20) ''__name__'' = Some (Obj 14)
   \<and> sysModuleModules_GetItem demo (Obj 16) = Some (Obj 17)
   \<and> PyObject_GetAttr demo (Obj 17) (Obj 14) = Some (Obj 24)
   \<and> walk demo (OfPyobj (Obj 20)) recorder [] = walkStructural demo recorder (Obj 20) []"
proof -
  have f: "PyObject_GetAttrString demo (Obj 20) ''__module__'' = Some (Obj 16)"
    "PyObject_GetAttrString demo (Obj 20) ''__name__'' = Some (Obj 14)"
    "sysModuleModules_GetItem demo (Obj 16) = Some (Obj 17)"
    "PyObject_GetAttr demo (Obj 17) (Obj 14) = Some (Obj 24)"
    by (simp_all add: demo_fields demo_defs api_defs)
  have r: "ob_type (heap demo (Obj 20)) \<noteq> environType demo \<and> \<not> isSimpleConstant demo (Obj 20)
        \<and> extractTypeFrom demo (ob_type (heap demo (Obj 20))) = None
        \<and> canonicalModule demo (Obj 20) = Inr None"
    using demo_reaches(2) by (simp add: reachesStructuralRules_def)
  have "PyObject_GetAttrString demo (Obj 20) ''__module__'' = None
     \<or> PyObject_GetAttrString demo (Obj 20) ''__name__'' = None
     \<or> (\<exists>m c. PyObject_GetAttrString demo (Obj 20) ''__module__'' = Some m
            \<and> PyObject_GetAttrString demo (Obj 20) ''__name__'' = Some c
            \<and> (\<not> PyUnicode_Check demo m
               \<or> \<not> PyUnicode_Check demo c
               \<or> sysModuleModules_GetItem demo m = None
               \<or> (\<exists>mo. sysModuleModules_GetItem demo m = Some mo
                     \<and> (PyObject_GetAttr demo mo c = None
                        \<or> (\<exists>x. PyObject_GetAttr demo mo c = Some x \<and> x \<noteq> Obj 20)))))"
    using f by simp
  from round_trip_failure_is_swallowed[OF this, of recorder "[]"] r f
  show ?thesis by simp
qed

lemma stable_names:
  assumes "isPyObjectGloballyIdentifiableAndStable w h = Inr True"
  shows "\<exists>moduleName clsName. attrAsString w h ''__module__'' = Inr moduleName
           \<and> attrAsString w h ''__name__'' = Inr clsName"
  using assms
  by (cases "attrAsString w h ''__module__''"; cases "attrAsString w h ''__name__''")
     (auto simp: isPyObjectGloballyIdentifiableAndStable_def split: if_splits)

text \<open>
  Claim C1 does not hold of the code: the rule for an instance of a type of the type graph
  and the rule for a globally identifiable and stable object both emit the discriminant 2
  as the first entry of the record.
\<close>

theorem discriminant_two_is_shared:
  assumes "ob_type (heap w a) \<noteq> environType w" and "\<not> isSimpleConstant w a"
    and "extractTypeFrom w (ob_type (heap w a)) = Some argType"
    and "ob_type (heap w b) \<noteq> environType w" and "\<not> isSimpleConstant w b"
    and "extractTypeFrom w (ob_type (heap w b)) = None"
    and "canonicalModule w b = Inr None"
    and "isPyObjectGloballyIdentifiableAndStable w b = Inr True"
  shows "recordWalk w (OfPyobj a) = Inr [HashRecord (ShaHash w 2), TopoRecord (OfType argType)]
    \<and> (\<exists>name. recordWalk w (OfPyobj b) = Inr [HashRecord (ShaHash w 2), StringRecord name])"
proof -
  have a: "recordWalk w (OfPyobj a) = Inr [HashRecord (ShaHash w 2), TopoRecord (OfType argType)]"
    using assms(1-3) by (simp add: recordWalk_def walk_def run_def recorder_def)
  obtain moduleName clsName where n: "attrAsString w b ''__module__'' = Inr moduleName"
    "attrAsString w b ''__name__'' = Inr clsName"
    using stable_names[OF assms(8)] by blast
  have "recordWalk w (OfPyobj b)
      = Inr [HashRecord (ShaHash w 2), StringRecord (moduleName @ ''|'' @ clsName)]"
    using assms(4-8) n by (simp add: recordWalk_def walk_def run_def recorder_def)
  then show ?thesis using a by blast
qed

theorem discriminant_two_is_shared_witness:
  "recordWalk demo (OfPyobj (Obj 5)) = Inr [HashRecord 2, TopoRecord (OfType (TypePtr 7))]
   \<and> recordWalk demo (OfPyobj (Obj 4)) = Inr [HashRecord 2, StringRecord ''posixpath|join'']"
proof -
  have a: "ob_type (heap demo (Obj 5)) \<noteq> environType demo" "\<not> isSimpleConstant demo (Obj 5)"
    "extractTypeFrom demo (ob_type (heap demo (Obj 5))) = Some (TypePtr 7)"
    by (simp_all add: isSimpleConstant_def demo_fields demo_defs api_defs)
  have b: "ob_type (heap demo (Obj 4)) \<noteq> environType demo" "\<not> isSimpleConstant demo (Obj 4)"
    "extractTypeFrom demo (ob_type (heap demo (Obj 4))) = None"
    "canonicalModule demo (Obj 4) = Inr None"
    by (simp_all add: isSimpleConstant_def canonicalModule_def demo_fields demo_defs api_defs)
  have n: "attrAsString demo (Obj 4) ''__module__'' = Inr ''posixpath''"
    "attrAsString demo (Obj 4) ''__name__'' = Inr ''join''"
    by (simp_all add: attrAsString_def demo_fields demo_defs api_defs)
  have w4: "recordWalk demo (OfPyobj (Obj 4)) = Inr [HashRecord 2, StringRecord ''posixpath|join'']"
    using b n demo_stable(1) by (simp add: recordWalk_def walk_def run_def recorder_def demo_fields)
  from discriminant_two_is_shared[OF a b demo_stable(1)] w4
  show ?thesis by (simp add: demo_fields)
qed

end
